theory Spec2Isabelle
  imports Complex_Main "HOL-Library.Multiset"
begin

section \<open>Conventions of the embedding\<close>

text \<open>
  The strategy engine is the class \<open>Calculations\<close> (calculations.js) over the static
  tables of \<open>Config\<close> and the helpers of \<open>Utils\<close>.

  \<^item> A JavaScript number is a \<^typ>\<open>real\<close>: the model computes in exact arithmetic,
    \<open>Math.pow(x, y)\<close> with a positive base is \<^term>\<open>x powr y\<close> and \<open>Math.exp\<close> is
    \<^term>\<open>exp :: real \<Rightarrow> real\<close>. Rounding error of IEEE doubles and infinities are
    outside the model.
  \<^item> A value that may be \<open>undefined\<close> or \<open>NaN\<close> is an \<^typ>\<open>'a option\<close>: \<^const>\<open>None\<close> is
    \<open>undefined\<close> where a property is read, and \<open>NaN\<close> once arithmetic has used it. An
    operation on \<open>NaN\<close> gives \<open>NaN\<close> and a comparison with \<open>NaN\<close> is false.
  \<^item> Lap counts and stint counts of a strategy are integers (\<^typ>\<open>int\<close>), as the planner
    builds them with \<open>parseInt\<close> and \<open>Math.floor\<close>; the calculators themselves take any
    number.
  \<^item> A string is a list of bytes; text beyond ASCII is written as its UTF-8 bytes and
    \<open>toUpperCase\<close> is modelled on the ASCII letters.
  \<^item> An object literal used as a dictionary is the finite map of its own properties,
    built with \<^const>\<open>map_of\<close>. A read \<open>obj[key]\<close> goes through \<open>getProperty\<close>, which
    also finds the properties every object literal inherits from \<open>Object.prototype\<close>.
  \<^item> \<open>Number.prototype.toFixed\<close> yields a decimal string; the model keeps the number
    that string denotes, which is what \<open>parseFloat\<close> and the comparisons \<open><\<close>, \<open>>\<close>
    against a number read back from it.
  \<^item> \<open>console.error\<close> in \<open>Utils.handleError\<close> only logs and is left out.
\<close>

section \<open>Config: circuits and boost levels\<close>

record Circuit =
  name :: string
  length_km :: real
  race_laps :: int
  tyreWear :: real
  country :: string
  timezone :: string
  difficulty :: string

definition mkCircuit ::
  "string \<Rightarrow> real \<Rightarrow> int \<Rightarrow> real \<Rightarrow> string \<Rightarrow> string \<Rightarrow> string \<Rightarrow> Circuit" where
  "mkCircuit n l k w co tz d =
     \<lparr>name = n, length_km = l, race_laps = k, tyreWear = w, country = co, timezone = tz,
      difficulty = d\<rparr>"

definition circuitsTable :: "(string \<times> Circuit) list" where
  "circuitsTable =
    [(''ABU'', mkCircuit ''Abu Dhabi'' 5.410 25 50 ''AE'' ''Asia/Dubai'' ''Medium''),
     (''AUS'', mkCircuit ''Australia'' 5.301 28 40 ''AU'' ''Australia/Melbourne'' ''Hard''),
     (''AUT'', mkCircuit ''Austria'' 4.044 34 60 ''AT'' ''Europe/Vienna'' ''Medium''),
     (''AZE'', mkCircuit ''Azerbaijan'' 6.049 23 45 ''AZ'' ''Asia/Baku'' ''Hard''),
     (''BAH'', mkCircuit ''Bahrain'' 4.726 29 60 ''BH'' ''Asia/Bahrain'' ''Medium''),
     (''BEL'', mkCircuit ''Belgium'' 7.041 21 60 ''BE'' ''Europe/Brussels'' ''Hard''),
     (''BRA'', mkCircuit ''Brazil'' 3.971 34 60 ''BR'' ''America/Sao_Paulo'' ''Medium''),
     (''CAN'', mkCircuit ''Canada'' 4.341 31 45 ''CA'' ''America/Montreal'' ''Medium''),
     (''CHN'', mkCircuit ''China'' 5.442 27 80 ''CN'' ''Asia/Shanghai'' ''Hard''),
     (''EUR'', mkCircuit ''Europe'' 5.590 25 45 ''DE'' ''Europe/Berlin'' ''Medium''),
     (''FRA'', mkCircuit ''France'' 5.881 24 80 ''FR'' ''Europe/Paris'' ''Hard''),
     (''GBR'', mkCircuit ''Great Britain'' 5.751 24 65 ''GB'' ''Europe/London'' ''Hard''),
     (''GER'', mkCircuit ''Germany'' 4.179 33 50 ''DE'' ''Europe/Berlin'' ''Medium''),
     (''HUN'', mkCircuit ''Hungary'' 3.498 39 30 ''HU'' ''Europe/Budapest'' ''Easy''),
     (''ITA'', mkCircuit ''Italy'' 5.401 25 35 ''IT'' ''Europe/Rome'' ''Medium''),
     (''JAP'', mkCircuit ''Japan'' 5.058 27 70 ''JP'' ''Asia/Tokyo'' ''Hard''),
     (''MAL'', mkCircuit ''Malaysia'' 5.536 27 85 ''MY'' ''Asia/Kuala_Lumpur'' ''Hard''),
     (''MEX'', mkCircuit ''Mexico'' 4.308 35 60 ''MX'' ''America/Mexico_City'' ''Medium''),
     (''MON'', mkCircuit ''Monaco'' 4.015 29 20 ''MC'' ''Europe/Monaco'' ''Very Hard''),
     (''RUS'', mkCircuit ''Russia'' 6.077 23 50 ''RU'' ''Europe/Moscow'' ''Medium''),
     (''SIN'', mkCircuit ''Singapore'' 5.049 30 45 ''SG'' ''Asia/Singapore'' ''Hard''),
     (''SPA'', mkCircuit ''Spain'' 4.457 31 85 ''ES'' ''Europe/Madrid'' ''Hard''),
     (''TUR'', mkCircuit ''Turkey'' 5.162 27 90 ''TR'' ''Europe/Istanbul'' ''Very Hard''),
     (''USA'', mkCircuit ''USA'' 4.602 30 65 ''US'' ''America/New_York'' ''Medium'')]"

definition circuitsData :: "string \<rightharpoonup> Circuit" where
  "circuitsData = map_of circuitsTable"

record BoostLevel =
  multiplier :: real
  label :: string

definition boostTable :: "(string \<times> BoostLevel) list" where
  "boostTable =
    [(''muy-alto'', \<lparr>multiplier = 1.04, label = ''Muy Alto (+4%)''\<rparr>),
     (''alto'', \<lparr>multiplier = 1.0161, label = ''Alto (+1.61%)''\<rparr>),
     (''neutral'', \<lparr>multiplier = 1, label = ''Neutral''\<rparr>),
     (''bajo'', \<lparr>multiplier = 0.988, label = ''Bajo (-1.2%)''\<rparr>),
     (''muy-bajo'', \<lparr>multiplier = 0.9799, label = ''Muy Bajo (-2.01%)''\<rparr>)]"

definition boostLevels :: "string \<rightharpoonup> BoostLevel" where
  "boostLevels = map_of boostTable"

section \<open>Reading a property of an object literal\<close>

text \<open>
  \<open>obj[key]\<close> on an object literal gives the own property \<open>key\<close> if there is one,
  else the property of that name of \<open>Object.prototype\<close>, else \<open>undefined\<close>.
  \<open>Object.prototype\<close> has twelve properties in a browser. Eleven are functions, of
  which the code can only see \<open>name\<close> and \<open>length\<close> (the number of declared
  parameters); \<open>__proto__\<close> reads as \<open>Object.prototype\<close> itself, which has neither.
  Every other property of these values is \<open>undefined\<close>, and all twelve values are truthy.
\<close>

record Member =
  member_name :: "string option"
  member_length :: "real option"

definition objectPrototype :: "(string \<times> Member) list" where
  "objectPrototype =
    [(''constructor'', \<lparr>member_name = Some ''Object'', member_length = Some 1\<rparr>),
     (''__defineGetter__'', \<lparr>member_name = Some ''__defineGetter__'', member_length = Some 2\<rparr>),
     (''__defineSetter__'', \<lparr>member_name = Some ''__defineSetter__'', member_length = Some 2\<rparr>),
     (''hasOwnProperty'', \<lparr>member_name = Some ''hasOwnProperty'', member_length = Some 1\<rparr>),
     (''__lookupGetter__'', \<lparr>member_name = Some ''__lookupGetter__'', member_length = Some 1\<rparr>),
     (''__lookupSetter__'', \<lparr>member_name = Some ''__lookupSetter__'', member_length = Some 1\<rparr>),
     (''isPrototypeOf'', \<lparr>member_name = Some ''isPrototypeOf'', member_length = Some 1\<rparr>),
     (''propertyIsEnumerable'',
        \<lparr>member_name = Some ''propertyIsEnumerable'', member_length = Some 1\<rparr>),
     (''toString'', \<lparr>member_name = Some ''toString'', member_length = Some 0\<rparr>),
     (''valueOf'', \<lparr>member_name = Some ''valueOf'', member_length = Some 0\<rparr>),
     (''__proto__'', \<lparr>member_name = None, member_length = None\<rparr>),
     (''toLocaleString'', \<lparr>member_name = Some ''toLocaleString'', member_length = Some 0\<rparr>)]"

definition objectPrototypeNames :: "string list" where
  "objectPrototypeNames = map fst objectPrototype"

datatype 'a property = Own 'a | Inherited Member

definition getProperty :: "(string \<rightharpoonup> 'a) \<Rightarrow> string \<Rightarrow> 'a property option" where
  "getProperty obj key =
     (case obj key of
        Some v \<Rightarrow> Some (Own v)
      | None \<Rightarrow> map_option Inherited (map_of objectPrototype key))"

text \<open>
  A value used as a property key is turned into a string first: \<open>obj[undefined]\<close> reads
  the property named \<open>undefined\<close>.
\<close>

definition propertyKey :: "string option \<Rightarrow> string" where
  "propertyKey k = (case k of Some s \<Rightarrow> s | None \<Rightarrow> ''undefined'')"

text \<open>
  The properties the code reads of a value \<open>c = this.circuitsData[circuit]\<close> and of a
  value \<open>boostInfo = this.boostLevels[boost]\<close>.
\<close>

fun nameOf :: "Circuit property \<Rightarrow> string option" where
  "nameOf (Own c) = Some (name c)"
| "nameOf (Inherited m) = member_name m"

fun lengthOf :: "Circuit property \<Rightarrow> real option" where
  "lengthOf (Own c) = Some (length_km c)"
| "lengthOf (Inherited m) = member_length m"

fun lapsOf :: "Circuit property \<Rightarrow> int option" where
  "lapsOf (Own c) = Some (race_laps c)"
| "lapsOf (Inherited m) = None"

fun tyreWearOf :: "Circuit property \<Rightarrow> real option" where
  "tyreWearOf (Own c) = Some (tyreWear c)"
| "tyreWearOf (Inherited m) = None"

fun difficultyOf :: "Circuit property \<Rightarrow> string option" where
  "difficultyOf (Own c) = Some (difficulty c)"
| "difficultyOf (Inherited m) = None"

fun multiplierOf :: "BoostLevel property \<Rightarrow> real option" where
  "multiplierOf (Own b) = Some (multiplier b)"
| "multiplierOf (Inherited m) = None"

fun labelOf :: "BoostLevel property \<Rightarrow> string option" where
  "labelOf (Own b) = Some (label b)"
| "labelOf (Inherited m) = None"

section \<open>Numbers that may be NaN\<close>

text \<open>
  A binary arithmetic operation with \<open>NaN\<close> (or \<open>undefined\<close>) on either side gives
  \<open>NaN\<close>; \<^const>\<open>map_option\<close> does the same for an operation with one such operand.
  The comparisons \<open><\<close>, \<open>>\<close> and \<open>>=\<close> against a number are false on \<open>NaN\<close>.
\<close>

definition arith :: "(real \<Rightarrow> real \<Rightarrow> real) \<Rightarrow> real option \<Rightarrow> real option \<Rightarrow> real option" where
  "arith f a b =
     (case a of
        None \<Rightarrow> None
      | Some x \<Rightarrow> (case b of None \<Rightarrow> None | Some y \<Rightarrow> Some (f x y)))"

definition isLess :: "real option \<Rightarrow> real \<Rightarrow> bool" where
  "isLess a k = (case a of None \<Rightarrow> False | Some x \<Rightarrow> x < k)"

definition isGreater :: "real option \<Rightarrow> real \<Rightarrow> bool" where
  "isGreater a k = (case a of None \<Rightarrow> False | Some x \<Rightarrow> x > k)"

definition isAtLeast :: "real option \<Rightarrow> real \<Rightarrow> bool" where
  "isAtLeast a k = (case a of None \<Rightarrow> False | Some x \<Rightarrow> x \<ge> k)"

section \<open>Utils: number formatting and result envelopes\<close>

text \<open>
  \<open>x.toFixed(d)\<close> rounds the magnitude of \<open>x\<close> to the nearest multiple of \<open>10^-d\<close>,
  a tie going to the larger magnitude, and keeps the sign.
\<close>

definition toFixed :: "nat \<Rightarrow> real \<Rightarrow> real" where
  "toFixed d x =
     (if x < 0 then - (real_of_int \<lfloor>- x * 10 ^ d + 1 / 2\<rfloor> / 10 ^ d)
      else real_of_int \<lfloor>x * 10 ^ d + 1 / 2\<rfloor> / 10 ^ d)"

text \<open>
  \<open>Utils.formatNumber(num, decimals)\<close>: \<open>'0'\<close> when \<open>isNaN(num)\<close>, which holds of
  \<open>NaN\<close>, of \<open>undefined\<close> and of a function or object that is no number.
\<close>

definition formatNumber :: "real option \<Rightarrow> nat \<Rightarrow> real" where
  "formatNumber num decimals = (case num of None \<Rightarrow> 0 | Some x \<Rightarrow> toFixed decimals x)"

text \<open>
  The messages the calculators put into \<open>new Error(...)\<close>:
  \<open>Circuito no encontrado\<close>, \<open>Valores invalidos\<close> and
  \<open>Puntos de combustible invalidos\<close> (each \<open>invalidos\<close> with an acute accent on its
  first a).
\<close>

datatype calc_error = CircuitoNoEncontrado | ValoresInvalidos | PuntosCombustibleInvalidos

definition error_message :: "calc_error \<Rightarrow> string" where
  "error_message e =
     (case e of
        CircuitoNoEncontrado \<Rightarrow> ''Circuito no encontrado''
      | ValoresInvalidos \<Rightarrow> ''Valores inv'' @ [CHR 0xC3, CHR 0xA1] @ ''lidos''
      | PuntosCombustibleInvalidos \<Rightarrow>
          ''Puntos de combustible inv'' @ [CHR 0xC3, CHR 0xA1] @ ''lidos'')"

text \<open>
  \<open>Utils.handleError(error, context)\<close> builds \<open>{success: false, error, context}\<close> and
  \<open>Utils.handleSuccess(data)\<close> builds \<open>{success: true, data, message}\<close> with the default
  message.
\<close>

datatype 'a Response = Failure calc_error string | Success 'a string

definition handleError :: "calc_error \<Rightarrow> string \<Rightarrow> 'a Response" where
  "handleError e context = Failure e context"

definition handleSuccess :: "'a \<Rightarrow> 'a Response" where
  "handleSuccess d = Success d (''Operaci'' @ [CHR 0xC3, CHR 0xB3] @ ''n exitosa'')"

fun success :: "'a Response \<Rightarrow> bool" where
  "success (Failure e ctx) = False"
| "success (Success d m) = True"

section \<open>Tyre wear model\<close>

record PerformanceImpact =
  status :: string
  color :: string
  impact :: string

definition calculatePerformanceImpact :: "real option \<Rightarrow> PerformanceImpact" where
  "calculatePerformanceImpact remaining =
     (if isAtLeast remaining 80 then
        \<lparr>status = ''Excelente'', color = ''green'', impact = ''0%''\<rparr>
      else if isAtLeast remaining 60 then
        \<lparr>status = ''Buena'', color = ''lime'', impact = ''-0.5%''\<rparr>
      else if isAtLeast remaining 40 then
        \<lparr>status = ''Aceptable'', color = ''yellow'', impact = ''-1.2%''\<rparr>
      else if isAtLeast remaining 20 then
        \<lparr>status = ''Degradada'', color = ''orange'', impact = ''-2.5%''\<rparr>
      else \<lparr>status = ''Cr'' @ [CHR 0xC3, CHR 0xAD] @ ''tica'', color = ''red'',
            impact = ''-4.0%''\<rparr>)"

record PitWindow =
  recommendation :: string
  urgency :: string

definition calculatePitWindow :: "real option \<Rightarrow> real option \<Rightarrow> PitWindow" where
  "calculatePitWindow remaining totalWear =
     (if isGreater remaining 70 then
        \<lparr>recommendation = ''Contin'' @ [CHR 0xC3, CHR 0xBA] @ ''a'', urgency = ''low''\<rparr>
      else if isGreater remaining 40 then
        \<lparr>recommendation = ''Considera parar pronto'', urgency = ''medium''\<rparr>
      else if isGreater remaining 20 then
        \<lparr>recommendation = ''Para en las pr'' @ [CHR 0xC3, CHR 0xB3] @ ''ximas vueltas'',
         urgency = ''high''\<rparr>
      else
        \<lparr>recommendation = [CHR 0xC2, CHR 0xA1] @ ''PARA INMEDIATAMENTE!'',
         urgency = ''critical''\<rparr>)"

record TyreCircuitInfo =
  tci_name :: "string option"
  tci_tyreWear :: "real option"
  tci_length :: "real option"
  tci_difficulty :: "string option"

record TyreWear =
  tw_baseWear :: real
  tw_baseWearWithCompound :: real
  tw_remaining :: real
  tw_totalWear :: real
  tw_compound :: string
  tw_compoundMultiplier :: real
  tw_performanceImpact :: PerformanceImpact
  tw_recommendedPitWindow :: PitWindow
  tw_lapsCompleted :: real
  tw_circuitInfo :: TyreCircuitInfo

text \<open>
  A failed call returns \<open>{error, baseWear: 0, remaining: 100}\<close>, an object without a
  \<open>success\<close> property; a successful one returns \<open>{success: true, ...}\<close>.
\<close>

datatype TyreWearResult =
    TyreFailure calc_error real real
  | TyreSuccess TyreWear

text \<open>The property reads \<open>r.success\<close> (as a truth value), \<open>r.remaining\<close>, \<open>r.baseWear\<close>
  and \<open>r.totalWear\<close> (absent on a failed call) of a result \<open>r\<close>.\<close>

fun tyre_success :: "TyreWearResult \<Rightarrow> bool" where
  "tyre_success (TyreFailure e b r) = False"
| "tyre_success (TyreSuccess w) = True"

fun remaining_of :: "TyreWearResult \<Rightarrow> real" where
  "remaining_of (TyreFailure e b r) = r"
| "remaining_of (TyreSuccess w) = tw_remaining w"

fun baseWear_of :: "TyreWearResult \<Rightarrow> real" where
  "baseWear_of (TyreFailure e b r) = b"
| "baseWear_of (TyreSuccess w) = tw_baseWear w"

fun totalWear_of :: "TyreWearResult \<Rightarrow> real option" where
  "totalWear_of (TyreFailure e b r) = None"
| "totalWear_of (TyreSuccess w) = Some (tw_totalWear w)"

definition toUpperChar :: "char \<Rightarrow> char" where
  "toUpperChar c =
     (let n = (of_char c :: nat) in if 97 \<le> n \<and> n \<le> 122 then char_of (n - 32) else c)"

definition toUpperCase :: "string \<Rightarrow> string" where
  "toUpperCase s = map toUpperChar s"

definition compoundMultipliers :: "string \<rightharpoonup> real" where
  "compoundMultipliers = map_of [(''SS'', 2.06), (''S'', 0.642), (''M'', 1.00), (''H'', 0.375)]"

text \<open>
  In \<open>calculateTyreWear\<close> the key of \<open>compoundMultipliers[...] || 1.0\<close> is an upper-cased
  string. Every name of \<open>Object.prototype\<close> has a lower-case letter, so this read finds
  an own property or nothing (\<open>getProperty_compoundMultipliers\<close> below), and the four
  multipliers are truthy.
\<close>

definition calculateTyreWear :: "string \<Rightarrow> string \<Rightarrow> real \<Rightarrow> real \<Rightarrow> TyreWearResult" where
  "calculateTyreWear circuit compound laps tyrePoints =
     (case getProperty circuitsData circuit of
        None \<Rightarrow> TyreFailure CircuitoNoEncontrado 0 100
      | Some c \<Rightarrow>
          if laps \<le> 0 \<or> tyrePoints \<le> 0 then TyreFailure ValoresInvalidos 0 100
          else
            let Te = max 1 tyrePoints;
                Tw = tyreWearOf c;
                D = lengthOf c;
                D0 = 50;
                N = max 1 laps;
                step1 = Te / 1.5;
                step2 = step1 powr (- 0.0778);
                step3 = 1.43 * step2;
                step4 = map_option (\<lambda>x. 0.00364 * x + 0.354) Tw;
                step5 = map_option (\<lambda>x. step3 * x) step4;
                step6 = map_option (\<lambda>x. x * 1.384612) D;
                step7 = arith (\<lambda>x y. x * y) step5 step6;
                step8 = map_option (\<lambda>x. x * (200 - D0)) step7;
                W_M = map_option (\<lambda>x. (x / 10000) * 100) step8;
                multiplier =
                  (case compoundMultipliers (toUpperCase compound) of
                     Some m \<Rightarrow> m | None \<Rightarrow> 1.0);
                Wc = map_option (\<lambda>x. x * multiplier) W_M;
                remaining = map_option (\<lambda>x. 100 * exp (- 1.18 * (x / 100) * N)) Wc;
                totalWear = map_option (\<lambda>x. 100 - x) remaining
            in TyreSuccess
                 \<lparr>tw_baseWear = formatNumber W_M 3,
                  tw_baseWearWithCompound = formatNumber Wc 3,
                  tw_remaining = formatNumber remaining 2,
                  tw_totalWear = formatNumber totalWear 2,
                  tw_compound = toUpperCase compound,
                  tw_compoundMultiplier = multiplier,
                  tw_performanceImpact = calculatePerformanceImpact remaining,
                  tw_recommendedPitWindow = calculatePitWindow remaining totalWear,
                  tw_lapsCompleted = N,
                  tw_circuitInfo =
                    \<lparr>tci_name = nameOf c, tci_tyreWear = Tw, tci_length = D,
                     tci_difficulty = difficultyOf c\<rparr>\<rparr>)"

section \<open>Fuel consumption model\<close>

record Efficiency =
  rating :: string
  eff_color :: string
  fuelPerKm :: real

definition calculateFuelEfficiency :: "real option \<Rightarrow> real option \<Rightarrow> Efficiency" where
  "calculateFuelEfficiency fuelPerLap circuitLength =
     (let fuelPerKm = arith (\<lambda>f len. f / len) fuelPerLap circuitLength;
          rc = (if isLess fuelPerKm 0.5 then (''Excelente'', ''green'')
                else if isLess fuelPerKm 0.7 then (''Buena'', ''lime'')
                else if isLess fuelPerKm 1.0 then (''Media'', ''yellow'')
                else if isLess fuelPerKm 1.3 then (''Pobre'', ''orange'')
                else (''Muy Pobre'', ''red''))
      in \<lparr>rating = fst rc, eff_color = snd rc, fuelPerKm = formatNumber fuelPerKm 3\<rparr>)"

record FuelCircuitInfo =
  fci_name :: "string option"
  fci_laps :: "int option"
  fci_length :: "real option"

record RaceFuel =
  rf_totalFuel :: real
  rf_fuelPerLap :: real
  rf_totalDistance :: real
  rf_efficiency :: Efficiency
  rf_circuitInfo :: FuelCircuitInfo

definition calculateFuel :: "string \<Rightarrow> real \<Rightarrow> RaceFuel Response" where
  "calculateFuel circuit fuelPoints =
     (case getProperty circuitsData circuit of
        None \<Rightarrow> handleError CircuitoNoEncontrado ''Fuel calculation''
      | Some c \<Rightarrow>
          if fuelPoints \<le> 0 then handleError PuntosCombustibleInvalidos ''Fuel calculation''
          else
            let totalDistance =
                  arith (\<lambda>len n. len * n) (lengthOf c)
                    (map_option real_of_int (lapsOf c));
                fuel =
                  map_option
                    (\<lambda>d. 98.45644 * (max 1 fuelPoints) powr (- 0.088463) * d / 139.771)
                    totalDistance;
                fuelPerLap =
                  arith (\<lambda>f n. f / n) fuel (map_option real_of_int (lapsOf c));
                efficiency = calculateFuelEfficiency fuelPerLap (lengthOf c)
            in handleSuccess
                 \<lparr>rf_totalFuel = formatNumber fuel 2,
                  rf_fuelPerLap = formatNumber fuelPerLap 3,
                  rf_totalDistance = formatNumber totalDistance 2,
                  rf_efficiency = efficiency,
                  rf_circuitInfo =
                    \<lparr>fci_name = nameOf c, fci_laps = lapsOf c,
                     fci_length = lengthOf c\<rparr>\<rparr>)"

record TimeImpact =
  perLap :: real
  total :: real
  direction :: string

definition timeImpacts :: "string \<rightharpoonup> real" where
  "timeImpacts =
     map_of [(''muy-alto'', - 0.8), (''alto'', - 0.3), (''neutral'', 0), (''bajo'', 0.4),
             (''muy-bajo'', 0.9)]"

text \<open>
  \<open>timeImpacts[boost] || 0\<close>: a missing key and the own entry \<open>0\<close> both give \<open>0\<close>. An
  inherited name gives a function, which is truthy and is kept: no number, so \<open>NaN\<close> in
  the product, \<open>'0'\<close> from \<open>formatNumber\<close> and false in both comparisons.
\<close>

definition calculateBoostTimeImpact :: "string \<Rightarrow> real \<Rightarrow> TimeImpact" where
  "calculateBoostTimeImpact boost laps =
     (let impactPerLap =
            (case getProperty timeImpacts boost of
               None \<Rightarrow> Some 0
             | Some (Own t) \<Rightarrow> Some t
             | Some (Inherited m) \<Rightarrow> None);
          totalImpact = map_option (\<lambda>i. i * laps) impactPerLap
      in \<lparr>perLap = formatNumber impactPerLap 1,
          total = formatNumber totalImpact 1,
          direction = (if isLess impactPerLap 0 then ''faster''
                       else if isGreater impactPerLap 0 then ''slower'' else ''neutral'')\<rparr>)"

record BoostInfo =
  bi_level :: string
  bi_multiplier :: "real option"
  bi_label :: "string option"

record StintFuel =
  sf_stintFuel :: real
  sf_fuelPerLap :: real
  sf_baseFuelPerLap :: real
  sf_boostInfo :: BoostInfo
  sf_fuelSaving :: real
  sf_timeImpact :: TimeImpact
  sf_laps :: real

text \<open>
  \<open>this.boostLevels[boost] || this.boostLevels['neutral']\<close>. Whatever the first read
  finds is truthy, an inherited function too, and is kept; only \<open>undefined\<close> falls back to
  the second read, which finds the own key \<open>neutral\<close> (its last branch is never taken).
\<close>

definition boostInfoFor :: "string \<Rightarrow> BoostLevel property" where
  "boostInfoFor boost =
     (case getProperty boostLevels boost of
        Some b \<Rightarrow> b
      | None \<Rightarrow> (case getProperty boostLevels ''neutral'' of
                   Some b \<Rightarrow> b
                 | None \<Rightarrow> Own \<lparr>multiplier = 1, label = ''Neutral''\<rparr>))"

definition calculateStintFuel :: "string \<Rightarrow> real \<Rightarrow> real \<Rightarrow> string \<Rightarrow> StintFuel Response" where
  "calculateStintFuel circuit fuelPoints laps boost =
     (case getProperty circuitsData circuit of
        None \<Rightarrow> handleError CircuitoNoEncontrado ''Stint fuel calculation''
      | Some c \<Rightarrow>
          if fuelPoints \<le> 0 \<or> laps \<le> 0 then
            handleError ValoresInvalidos ''Stint fuel calculation''
          else
            let fuelPerLap =
                  map_option
                    (\<lambda>len. (98.45644 * (max 1 fuelPoints) powr (- 0.088463) * len) / 139.771)
                    (lengthOf c);
                stintFuel0 = map_option (\<lambda>f. f * laps) fuelPerLap;
                boostInfo = boostInfoFor boost;
                stintFuel =
                  arith (\<lambda>s m. s * m) stintFuel0 (multiplierOf boostInfo);
                fuelSaving =
                  map_option (\<lambda>s. s * laps)
                    (arith (\<lambda>m f. (1 - m) * f) (multiplierOf boostInfo) fuelPerLap);
                timeImpact = calculateBoostTimeImpact boost laps
            in handleSuccess
                 \<lparr>sf_stintFuel = formatNumber stintFuel 2,
                  sf_fuelPerLap =
                    formatNumber (arith (\<lambda>f m. f * m) fuelPerLap (multiplierOf boostInfo)) 3,
                  sf_baseFuelPerLap = formatNumber fuelPerLap 3,
                  sf_boostInfo =
                    \<lparr>bi_level = boost, bi_multiplier = multiplierOf boostInfo,
                     bi_label = labelOf boostInfo\<rparr>,
                  sf_fuelSaving = formatNumber (map_option abs fuelSaving) 2,
                  sf_timeImpact = timeImpact,
                  sf_laps = laps\<rparr>)"

section \<open>Strategy generator\<close>

record Stint =
  stint :: int
  compound :: string
  laps :: int
  boost :: string

record Strategy =
  stints :: "Stint list"
  totalFuel :: real
  description :: string

text \<open>\<open>stints.reduce(...)\<close> of \<open>calculateTotalStrategyFuel\<close>; \<open>parseFloat\<close> reads the
  formatted stint fuel back as a number.\<close>

definition calculateTotalStrategyFuel :: "string \<Rightarrow> Stint list \<Rightarrow> real \<Rightarrow> real" where
  "calculateTotalStrategyFuel circuit sts fuelPoints =
     fold (\<lambda>st total.
             let stintFuel =
                   calculateStintFuel circuit fuelPoints (real_of_int (laps st)) (boost st)
             in total + (case stintFuel of Success d m \<Rightarrow> sf_stintFuel d | Failure e c \<Rightarrow> 0))
          sts 0"

text \<open>
  \<open>${n}\<close> in a template literal writes the number \<open>n\<close> in decimal; the numbers a
  description shows are integers.
\<close>

definition digitChar :: "nat \<Rightarrow> char" where
  "digitChar d = ''0123456789'' ! d"

fun decimalDigits :: "nat \<Rightarrow> string \<Rightarrow> string" where
  "decimalDigits n acc =
     (if n < 10 then digitChar n # acc
      else decimalDigits (n div 10) (digitChar (n mod 10) # acc))"

declare decimalDigits.simps [simp del]

definition numberToString :: "int \<Rightarrow> string" where
  "numberToString i =
     (if 0 \<le> i then decimalDigits (nat i) [] else CHR ''-'' # decimalDigits (nat (- i)) [])"

fun join :: "string \<Rightarrow> string list \<Rightarrow> string" where
  "join sep [] = []"
| "join sep [x] = x"
| "join sep (x # y # ys) = x @ sep @ join sep (y # ys)"

text \<open>The separator of the compounds is a rightwards arrow (U+2192) between two spaces.\<close>

definition generateStrategyDescription :: "Stint list \<Rightarrow> string" where
  "generateStrategyDescription sts =
     (if length sts = 1 then ''Estrategia sin paradas''
      else
        let compounds = join ('' '' @ [CHR 0xE2, CHR 0x86, CHR 0x92] @ '' '') (map compound sts);
            lapsText = join '' + '' (map (\<lambda>s. numberToString (laps s) @ ''L'') sts)
        in numberToString (int (length sts)) @ '' paradas: '' @ compounds @ '' ('' @ lapsText @ '')'')"

text \<open>
  The loop \<open>for (let i = 0; i < numStints; i++)\<close> of \<open>createBalancedStrategy\<close>, with its
  two variables \<open>remainingLaps\<close> and \<open>stints\<close> as arguments.
\<close>

function balancedStints :: "int \<Rightarrow> string \<Rightarrow> int \<Rightarrow> int \<Rightarrow> Stint list \<Rightarrow> Stint list" where
  "balancedStints numStints primaryCompound i remainingLaps sts =
     (if i < numStints then
        balancedStints numStints primaryCompound (i + 1)
          (remainingLaps -
             (if i = numStints - 1 then remainingLaps else remainingLaps div (numStints - i)))
          (sts @
             [\<lparr>stint = i + 1,
               compound =
                 (if numStints > 1 then
                    (if i = 0 then ''S''
                     else if i = numStints - 1 then ''H''
                     else primaryCompound)
                  else primaryCompound),
               laps =
                 (if i = numStints - 1 then remainingLaps
                  else remainingLaps div (numStints - i)),
               boost = ''neutral''\<rparr>])
      else sts)"
  by pat_completeness auto
termination
  by (relation "measure (\<lambda>(numStints, primaryCompound, i, remainingLaps, sts). nat (numStints - i))")
    auto

declare balancedStints.simps [simp del]

definition createBalancedStrategy ::
  "string \<Rightarrow> int \<Rightarrow> int \<Rightarrow> string \<Rightarrow> real \<Rightarrow> real \<Rightarrow> Strategy" where
  "createBalancedStrategy circuit totalLaps numStints primaryCompound tyrePoints fuelPoints =
     (let sts = balancedStints numStints primaryCompound 0 totalLaps []
      in \<lparr>stints = sts,
          totalFuel = calculateTotalStrategyFuel circuit sts fuelPoints,
          description = generateStrategyDescription sts\<rparr>)"

definition validateStrategy :: "'a Strategy_scheme \<Rightarrow> int \<Rightarrow> bool" where
  "validateStrategy strategy totalLaps =
     (let totalStintLaps = fold (\<lambda>st sum. sum + laps st) (stints strategy) 0
      in totalStintLaps = totalLaps \<and> list_all (\<lambda>st. laps st > 0) (stints strategy))"

text \<open>
  The two nested loops of \<open>generateStrategies\<close>; a strategy object is always truthy, so
  the test \<open>strategy && this.validateStrategy(...)\<close> is the validation alone.
\<close>

definition generateStrategies ::
  "string \<Rightarrow> int \<Rightarrow> real \<Rightarrow> real \<Rightarrow> int \<Rightarrow> string list \<Rightarrow> int \<Rightarrow> int \<Rightarrow> Strategy list" where
  "generateStrategies circuit totalLaps tyrePoints fuelPoints maxStints compounds minLength
       maxLength =
     concat
       (map (\<lambda>numStints.
               let avgStintLength = totalLaps div numStints
               in if avgStintLength \<ge> minLength \<and> avgStintLength \<le> maxLength then
                    filter (\<lambda>strategy. validateStrategy strategy totalLaps)
                      (map (\<lambda>compound.
                              createBalancedStrategy circuit totalLaps numStints compound
                                tyrePoints fuelPoints)
                         compounds)
                  else [])
          [1..maxStints])"

section \<open>Strategy evaluator\<close>

text \<open>
  The body of the \<open>forEach\<close> in \<open>evaluateStrategy\<close>. \<open>circuitInfo\<close> is the value
  \<open>optimizeStrategy\<close> read from \<open>this.circuitsData\<close>, and the circuit handed to
  \<open>calculateTyreWear\<close> is \<open>circuitInfo.name\<close>: the display name of a catalog circuit.
\<close>

definition evaluateStint :: "Circuit property \<Rightarrow> Stint \<Rightarrow> int \<Rightarrow> int" where
  "evaluateStint circuitInfo st score =
     (let tyreWear =
            calculateTyreWear (propertyKey (nameOf circuitInfo)) (compound st)
              (real_of_int (laps st)) 100;
          score1 =
            (if remaining_of tyreWear < 20 then score - 30
             else if remaining_of tyreWear < 40 then score - 15
             else if remaining_of tyreWear > 80 then score - 5
             else score)
      in if laps st \<ge> 8 \<and> laps st \<le> 25 then score1 + 5 else score1)"

definition evaluateStrategy :: "'a Strategy_scheme \<Rightarrow> Circuit property \<Rightarrow> int" where
  "evaluateStrategy strategy circuitInfo =
     max 0
       (fold (evaluateStint circuitInfo) (stints strategy)
          (100 - (int (length (stints strategy)) - 1) * 15))"

record ScoredStrategy = Strategy +
  score :: int

record Constraints =
  maxStints :: "int option"
  preferredCompounds :: "string list option"
  minStintLength :: "int option"
  maxStintLength :: "int option"

record OptimizationCircuitInfo =
  oci_name :: "string option"
  oci_totalLaps :: int
  oci_difficulty :: "string option"

record Optimization =
  recommended :: "ScoredStrategy option"
  alternatives :: "ScoredStrategy list"
  opt_circuitInfo :: OptimizationCircuitInfo

text \<open>
  \<open>Array.prototype.sort\<close> with the comparator \<open>b.score - a.score\<close> is a stable sort into
  descending score, which \<^const>\<open>sort_key\<close> on the negated score is. \<open>xs[0]\<close> of an empty
  array is \<open>undefined\<close>, here \<^const>\<open>None\<close>.
\<close>

definition optimizeStrategy ::
  "string \<Rightarrow> int \<Rightarrow> real \<Rightarrow> real \<Rightarrow> Constraints \<Rightarrow> Optimization Response" where
  "optimizeStrategy circuit totalLaps tyrePoints fuelPoints constraints =
     (case getProperty circuitsData circuit of
        None \<Rightarrow> handleError CircuitoNoEncontrado ''Strategy optimization''
      | Some c \<Rightarrow>
          let maxStints' = (case maxStints constraints of Some v \<Rightarrow> v | None \<Rightarrow> 3);
              preferredCompounds' =
                (case preferredCompounds constraints of Some v \<Rightarrow> v | None \<Rightarrow> [''M'', ''S'']);
              minStintLength' = (case minStintLength constraints of Some v \<Rightarrow> v | None \<Rightarrow> 5);
              maxStintLength' =
                (case maxStintLength constraints of
                   Some v \<Rightarrow> v
                 | None \<Rightarrow> \<lfloor>real_of_int totalLaps * 0.7\<rfloor>);
              strategies =
                generateStrategies circuit totalLaps tyrePoints fuelPoints maxStints'
                  preferredCompounds' minStintLength' maxStintLength';
              evaluatedStrategies =
                take 5
                  (sort_key (\<lambda>s. - score s)
                     (map (\<lambda>strategy.
                             \<lparr>stints = stints strategy, totalFuel = totalFuel strategy,
                              description = description strategy,
                              score = evaluateStrategy strategy c\<rparr>)
                        strategies))
          in handleSuccess
               \<lparr>recommended =
                  (case evaluatedStrategies of [] \<Rightarrow> None | s # rest \<Rightarrow> Some s),
                alternatives = drop 1 evaluatedStrategies,
                opt_circuitInfo =
                  \<lparr>oci_name = nameOf c, oci_totalLaps = totalLaps,
                   oci_difficulty = difficultyOf c\<rparr>\<rparr>)"

section \<open>Strategy comparator\<close>

record Analysis =
  estimatedTime :: int
  an_totalFuel :: real
  riskLevel :: int
  pitStops :: int

text \<open>
  The body of the \<open>forEach((stint, index) => ...)\<close> in \<open>analyzeStrategy\<close> on the three
  accumulators \<open>totalTime\<close>, \<open>totalFuel\<close> and \<open>riskLevel\<close> (in this order in the
  triple); \<open>n\<close> is \<open>strategy.stints.length\<close>.
\<close>

definition analyzeStint ::
  "string \<Rightarrow> int \<Rightarrow> nat \<times> Stint \<Rightarrow> int \<times> real \<times> int \<Rightarrow> int \<times> real \<times> int" where
  "analyzeStint circuit n ist acc =
     (case (ist, acc) of
        ((index, st), (time0, fuel0, risk0)) \<Rightarrow>
          let tyreCalc = calculateTyreWear circuit (compound st) (real_of_int (laps st)) 100;
              fuelCalc = calculateStintFuel circuit 100 (real_of_int (laps st)) (boost st);
              time1 = time0 + laps st * 90;
              fuel1 = fuel0 + (case fuelCalc of Success d m \<Rightarrow> sf_stintFuel d | Failure e c \<Rightarrow> 0);
              time2 = (if int index < n - 1 then time1 + 25 else time1);
              risk1 =
                (if remaining_of tyreCalc < 30 then risk0 + 2
                 else if remaining_of tyreCalc < 50 then risk0 + 1
                 else risk0)
          in (time2, fuel1, risk1))"

definition analyzeStrategy :: "'a Strategy_scheme \<Rightarrow> string \<Rightarrow> Analysis" where
  "analyzeStrategy strategy circuit =
     (let n = int (length (stints strategy));
          acc = fold (analyzeStint circuit n) (enumerate 0 (stints strategy)) (0, 0, 0)
      in case acc of
           (time, fuel, risk) \<Rightarrow>
             \<lparr>estimatedTime = time,
              an_totalFuel = formatNumber (Some fuel) 2,
              riskLevel = risk,
              pitStops = n - 1\<rparr>)"

section \<open>Closed forms of the models\<close>

text \<open>
  The local constants \<open>multiplier\<close>, \<open>W_M\<close> and \<open>remaining\<close> of \<open>calculateTyreWear\<close>
  as functions of its inputs; \<open>remaining_of_ok\<close> and \<open>totalWear_of_ok\<close> below tie them
  to what the function returns.
\<close>

definition compoundMultiplierOf :: "string \<Rightarrow> real" where
  "compoundMultiplierOf cp =
     (case compoundMultipliers (toUpperCase cp) of Some m \<Rightarrow> m | None \<Rightarrow> 1.0)"

definition baseWearM :: "Circuit \<Rightarrow> real \<Rightarrow> real" where
  "baseWearM c tyrePoints =
     1.43 * (max 1 tyrePoints / 1.5) powr (- 0.0778) * (0.00364 * tyreWear c + 0.354)
       * (length_km c * 1.384612) * (200 - 50) / 10000 * 100"


definition rawRemaining :: "Circuit \<Rightarrow> string \<Rightarrow> real \<Rightarrow> real \<Rightarrow> real" where
  "rawRemaining c cp l tyrePoints =
     100 * exp (- 1.18 * (baseWearM c tyrePoints * compoundMultiplierOf cp / 100) * max 1 l)"

text \<open>
  The payload of a response (\<open>r.data\<close>, absent on a failure) and the local constant
  \<open>fuelPerLap\<close> of \<open>calculateStintFuel\<close>, which \<open>calculateFuel\<close> computes as
  \<open>fuel / c.laps\<close>.
\<close>

fun data_of :: "'a Response \<Rightarrow> 'a option" where
  "data_of (Failure e ctx) = None"
| "data_of (Success d m) = Some d"

definition rawFuelPerLap :: "Circuit \<Rightarrow> real \<Rightarrow> real" where
  "rawFuelPerLap c fuelPoints =
     (98.45644 * (max 1 fuelPoints) powr (- 0.088463) * length_km c) / 139.771"

text \<open>
  The object \<open>calculateStintFuel\<close> hands to \<open>Utils.handleSuccess\<close> for a circuit of the
  catalog.
\<close>

definition stintFuelData :: "Circuit \<Rightarrow> real \<Rightarrow> real \<Rightarrow> string \<Rightarrow> StintFuel" where
  "stintFuelData c fp l b =
     \<lparr>sf_stintFuel =
        formatNumber
          (map_option (\<lambda>m. rawFuelPerLap c fp * l * m) (multiplierOf (boostInfoFor b))) 2,
      sf_fuelPerLap =
        formatNumber
          (map_option (\<lambda>m. rawFuelPerLap c fp * m) (multiplierOf (boostInfoFor b))) 3,
      sf_baseFuelPerLap = toFixed 3 (rawFuelPerLap c fp),
      sf_boostInfo =
        \<lparr>bi_level = b, bi_multiplier = multiplierOf (boostInfoFor b),
         bi_label = labelOf (boostInfoFor b)\<rparr>,
      sf_fuelSaving =
        formatNumber
          (map_option (\<lambda>m. \<bar>(1 - m) * rawFuelPerLap c fp * l\<bar>)
             (multiplierOf (boostInfoFor b))) 2,
      sf_timeImpact = calculateBoostTimeImpact b l,
      sf_laps = l\<rparr>"

text \<open>What one stint adds to \<open>riskLevel\<close> in \<open>analyzeStrategy\<close>.\<close>

definition stintRisk :: "string \<Rightarrow> Stint \<Rightarrow> int" where
  "stintRisk circuit st =
     (if remaining_of (calculateTyreWear circuit (compound st) (real_of_int (laps st)) 100) < 30
      then 2
      else if remaining_of (calculateTyreWear circuit (compound st) (real_of_int (laps st)) 100) < 50
      then 1 else 0)"

text \<open>
  The local constants \<open>strategies\<close> (the generator run on the constraints with their
  defaults) and \<open>evaluatedStrategies\<close> before \<open>slice(0, 5)\<close> of \<open>optimizeStrategy\<close>, and
  the object \<open>{...strategy, score}\<close> it builds for each candidate.
\<close>

definition candidateStrategies ::
  "string \<Rightarrow> int \<Rightarrow> real \<Rightarrow> real \<Rightarrow> Constraints \<Rightarrow> Strategy list" where
  "candidateStrategies circuit totalLaps tyrePoints fuelPoints constraints =
     generateStrategies circuit totalLaps tyrePoints fuelPoints
       (case maxStints constraints of Some v \<Rightarrow> v | None \<Rightarrow> 3)
       (case preferredCompounds constraints of Some v \<Rightarrow> v | None \<Rightarrow> [''M'', ''S''])
       (case minStintLength constraints of Some v \<Rightarrow> v | None \<Rightarrow> 5)
       (case maxStintLength constraints of
          Some v \<Rightarrow> v
        | None \<Rightarrow> \<lfloor>real_of_int totalLaps * 0.7\<rfloor>)"

definition withScore :: "Circuit property \<Rightarrow> Strategy \<Rightarrow> ScoredStrategy" where
  "withScore c strategy =
     \<lparr>stints = stints strategy, totalFuel = totalFuel strategy,
      description = description strategy, score = evaluateStrategy strategy c\<rparr>"

definition rankedStrategies ::
  "Circuit property \<Rightarrow> string \<Rightarrow> int \<Rightarrow> real \<Rightarrow> real \<Rightarrow> Constraints \<Rightarrow> ScoredStrategy list" where
  "rankedStrategies c circuit totalLaps tyrePoints fuelPoints constraints =
     sort_key (\<lambda>s. - score s)
       (map (withScore c) (candidateStrategies circuit totalLaps tyrePoints fuelPoints constraints))"

section \<open>The score as the specification words it\<close>

text \<open>
  \<open>spec_score\<close> follows the sentences of the specification, not the code: start at 100,
  take 15 off for each stint beyond the first, and for each stint, with the Tyre Wear
  Model of the circuit (by its catalog code), the stint's compound and lap count and 100
  tyre points, take off 30 if \<open>remaining < 20\<close>, else 15 if \<open>remaining < 40\<close>, else 5 if
  \<open>remaining > 80\<close>, and add 5 if the lap count is in \<open>[8, 25]\<close>; the score is the larger
  of 0 and this total. It is compared with \<open>evaluateStrategy\<close> below.
\<close>

definition spec_stintAdjustment :: "string \<Rightarrow> Stint \<Rightarrow> int" where
  "spec_stintAdjustment code st =
     (let r = remaining_of (calculateTyreWear code (compound st) (real_of_int (laps st)) 100)
      in (if r < 20 then - 30 else if r < 40 then - 15 else if r > 80 then - 5 else 0)
         + (if 8 \<le> laps st \<and> laps st \<le> 25 then 5 else 0))"

definition spec_score :: "string \<Rightarrow> 'a Strategy_scheme \<Rightarrow> int" where
  "spec_score code strategy =
     max 0 (100 - 15 * (int (length (stints strategy)) - 1)
              + sum_list (map (spec_stintAdjustment code) (stints strategy)))"

section \<open>Facts about the catalog and the tyre wear model\<close>

lemma circuit_in_table: "circuitsData c = Some ci \<Longrightarrow> (c, ci) \<in> set circuitsTable"
  unfolding circuitsData_def by (rule map_of_SomeD)

lemma catalog_positive:
  assumes "circuitsData c = Some ci"
  shows "0 < length_km ci" "0 \<le> tyreWear ci" "0 < race_laps ci"
  using circuit_in_table[OF assms] by (auto simp: circuitsTable_def mkCircuit_def)

lemma getProperty_own:
  "obj key = Some v \<Longrightarrow> getProperty obj key = Some (Own v)"
  by (simp add: getProperty_def)

lemma circuit_own:
  "circuitsData circuit = Some c \<Longrightarrow> getProperty circuitsData circuit = Some (Own c)"
  by (simp add: getProperty_def)

lemma getProperty_None_iff:
  "getProperty obj key = None \<longleftrightarrow> obj key = None \<and> key \<notin> set objectPrototypeNames"
  by (auto simp: getProperty_def objectPrototypeNames_def map_of_eq_None_iff
      split: option.splits)

lemma objectPrototypeNames_eq:
  "objectPrototypeNames =
    [''constructor'', ''__defineGetter__'', ''__defineSetter__'', ''hasOwnProperty'',
     ''__lookupGetter__'', ''__lookupSetter__'', ''isPrototypeOf'', ''propertyIsEnumerable'',
     ''toString'', ''valueOf'', ''__proto__'', ''toLocaleString'']"
  by (simp add: objectPrototypeNames_def objectPrototype_def)

lemma toUpperChar_not_lower:
  "\<not> (97 \<le> (of_char (toUpperChar c) :: nat) \<and> (of_char (toUpperChar c) :: nat) \<le> 122)"
proof (cases "97 \<le> (of_char c :: nat) \<and> (of_char c :: nat) \<le> 122")
  case True
  then have "toUpperChar c = char_of ((of_char c :: nat) - 32)"
    by (simp add: toUpperChar_def Let_def)
  moreover have "(of_char (char_of ((of_char c :: nat) - 32)) :: nat) = (of_char c :: nat) - 32"
  proof -
    have "(of_char c :: nat) - 32 < 256" using True by linarith
    then show ?thesis by simp
  qed
  ultimately have "(of_char (toUpperChar c) :: nat) = (of_char c :: nat) - 32" by simp
  then show ?thesis using True by linarith
next
  case False
  have "toUpperChar c = c"
    by (simp only: toUpperChar_def Let_def False if_False)
  then show ?thesis using False by simp
qed

lemma toUpperCase_no_lower:
  assumes "97 \<le> (of_char x :: nat)" "(of_char x :: nat) \<le> 122"
  shows "x \<notin> set (toUpperCase s)"
proof
  assume "x \<in> set (toUpperCase s)"
  then obtain c where "x = toUpperChar c" unfolding toUpperCase_def by auto
  then show False using assms toUpperChar_not_lower[of c] by simp
qed

lemma inherited_name_has_lower:
  assumes "n \<in> set objectPrototypeNames"
  shows "CHR ''r'' \<in> set n \<or> CHR ''e'' \<in> set n"
  using assms unfolding objectPrototypeNames_eq by auto

lemma toUpperCase_not_inherited: "toUpperCase s \<notin> set objectPrototypeNames"
proof
  assume "toUpperCase s \<in> set objectPrototypeNames"
  then have "CHR ''r'' \<in> set (toUpperCase s) \<or> CHR ''e'' \<in> set (toUpperCase s)"
    by (rule inherited_name_has_lower)
  moreover have "CHR ''r'' \<notin> set (toUpperCase s)" by (rule toUpperCase_no_lower) simp_all
  moreover have "CHR ''e'' \<notin> set (toUpperCase s)" by (rule toUpperCase_no_lower) simp_all
  ultimately show False by blast
qed

text \<open>
  The read \<open>compoundMultipliers[compound.toUpperCase()]\<close> never finds an inherited
  property: it gives the own multiplier or \<open>undefined\<close>.
\<close>

lemma getProperty_compoundMultipliers:
  "getProperty compoundMultipliers (toUpperCase s)
     = map_option Own (compoundMultipliers (toUpperCase s))"
proof (cases "compoundMultipliers (toUpperCase s)")
  case None
  then have "getProperty compoundMultipliers (toUpperCase s) = None"
    using toUpperCase_not_inherited[of s] by (simp add: getProperty_None_iff)
  then show ?thesis using None by simp
next
  case (Some m)
  then show ?thesis by (simp add: getProperty_def)
qed

lemma getProperty_cases:
  obtains (undefined) "getProperty obj key = None"
  | (own) v where "obj key = Some v" "getProperty obj key = Some (Own v)"
  | (inherited) m where "obj key = None" "getProperty obj key = Some (Inherited m)"
  by (cases "obj key"; cases "map_of objectPrototype key") (auto simp: getProperty_def)

lemma calculateTyreWear_unknown:
  "getProperty circuitsData circuit = None \<Longrightarrow>
   calculateTyreWear circuit cp l tp = TyreFailure CircuitoNoEncontrado 0 100"
  by (simp add: calculateTyreWear_def)

lemma calculateTyreWear_invalid:
  "getProperty circuitsData circuit = Some c \<Longrightarrow> l \<le> 0 \<or> tp \<le> 0 \<Longrightarrow>
   calculateTyreWear circuit cp l tp = TyreFailure ValoresInvalidos 0 100"
  by (simp add: calculateTyreWear_def)

lemma remaining_of_ok:
  assumes "circuitsData circuit = Some c" "0 < l" "0 < tp"
  shows "remaining_of (calculateTyreWear circuit cp l tp) = toFixed 2 (rawRemaining c cp l tp)"
proof -
  have ne: "\<not> (l \<le> 0 \<or> tp \<le> 0)" using assms by simp
  show ?thesis
    by (simp only: calculateTyreWear_def Let_def circuit_own[OF assms(1)] option.case ne
        if_False tyreWearOf.simps lengthOf.simps option.map arith_def formatNumber_def
        rawRemaining_def baseWearM_def compoundMultiplierOf_def remaining_of.simps
        TyreWear.select_convs)
qed

lemma totalWear_of_ok:
  assumes "circuitsData circuit = Some c" "0 < l" "0 < tp"
  shows "totalWear_of (calculateTyreWear circuit cp l tp) = Some (toFixed 2 (100 - rawRemaining c cp l tp))"
proof -
  have ne: "\<not> (l \<le> 0 \<or> tp \<le> 0)" using assms by simp
  show ?thesis
    by (simp only: calculateTyreWear_def Let_def circuit_own[OF assms(1)] option.case ne
        if_False tyreWearOf.simps lengthOf.simps option.map arith_def formatNumber_def
        rawRemaining_def baseWearM_def compoundMultiplierOf_def totalWear_of.simps
        TyreWear.select_convs)
qed

lemma tyre_success_ok:
  assumes "getProperty circuitsData circuit = Some c" "0 < l" "0 < tp"
  shows "tyre_success (calculateTyreWear circuit cp l tp)"
  using assms by (simp add: calculateTyreWear_def Let_def)

text \<open>
  On a name inherited from \<open>Object.prototype\<close> the value read has no \<open>tyreWear\<close>: the
  wear is \<open>NaN\<close> and every formatted number of the result is \<open>0\<close>.
\<close>

lemma calculateTyreWear_inherited:
  assumes "getProperty circuitsData circuit = Some (Inherited m)" "0 < l" "0 < tp"
  shows "tyre_success (calculateTyreWear circuit cp l tp)"
    and "remaining_of (calculateTyreWear circuit cp l tp) = 0"
    and "baseWear_of (calculateTyreWear circuit cp l tp) = 0"
    and "totalWear_of (calculateTyreWear circuit cp l tp) = Some 0"
  using assms by (simp_all add: calculateTyreWear_def Let_def formatNumber_def arith_def)

lemma toFixed_mono: "x \<le> y \<Longrightarrow> toFixed d x \<le> toFixed d y"
proof -
  assume xy: "x \<le> y"
  have p: "(0::real) < 10 ^ d" by simp
  show ?thesis
  proof (cases "x < 0")
    case xn: True
    show ?thesis
    proof (cases "y < 0")
      case True
      have "- y * 10 ^ d + 1 / 2 \<le> - x * 10 ^ d + 1 / 2" using xy p by (simp add: mult_right_mono)
      then have "\<lfloor>- y * 10 ^ d + 1 / 2\<rfloor> \<le> \<lfloor>- x * 10 ^ d + 1 / 2\<rfloor>" by (rule floor_mono)
      then show ?thesis using xn True p by (simp add: toFixed_def divide_right_mono)
    next
      case False
      have "0 \<le> - x * 10 ^ d" using xn p by (simp add: mult_le_0_iff)
      then have a: "0 \<le> \<lfloor>- x * 10 ^ d + 1 / 2\<rfloor>" by simp
      have "0 \<le> y * 10 ^ d" using False p by simp
      then have b: "0 \<le> \<lfloor>y * 10 ^ d + 1 / 2\<rfloor>" by simp
      have "toFixed d x \<le> 0" using xn a by (simp add: toFixed_def)
      moreover have "0 \<le> toFixed d y" using False b by (simp add: toFixed_def)
      ultimately show ?thesis by linarith
    qed
  next
    case False
    then have yn: "\<not> y < 0" using xy by linarith
    have "x * 10 ^ d + 1 / 2 \<le> y * 10 ^ d + 1 / 2" using xy p by (simp add: mult_right_mono)
    then have "\<lfloor>x * 10 ^ d + 1 / 2\<rfloor> \<le> \<lfloor>y * 10 ^ d + 1 / 2\<rfloor>" by (rule floor_mono)
    then show ?thesis using False yn p by (simp add: toFixed_def divide_right_mono)
  qed
qed

lemma compoundMultiplierOf_pos: "0 < compoundMultiplierOf cp"
  by (auto simp: compoundMultiplierOf_def compoundMultipliers_def split: option.splits if_splits)

lemma baseWearM_pos:
  assumes "circuitsData circuit = Some c"
  shows "0 < baseWearM c tp"
proof -
  have "0 < (max 1 tp / 1.5) powr (- 0.0778)" by simp
  moreover have "0 < 0.00364 * tyreWear c + 0.354" using catalog_positive(2)[OF assms] by simp
  moreover have "0 < length_km c * 1.384612" using catalog_positive(1)[OF assms] by simp
  ultimately show ?thesis unfolding baseWearM_def by simp
qed

lemma rawRemaining_antimono:
  assumes "circuitsData circuit = Some c" "l1 \<le> l2"
  shows "rawRemaining c cp l2 tp \<le> rawRemaining c cp l1 tp"
proof -
  have k: "0 \<le> 1.18 * (baseWearM c tp * compoundMultiplierOf cp / 100)"
    using baseWearM_pos[OF assms(1), of tp] compoundMultiplierOf_pos[of cp] by simp
  have "max 1 l1 \<le> max 1 l2" using assms(2) by simp
  then have "1.18 * (baseWearM c tp * compoundMultiplierOf cp / 100) * max 1 l1
          \<le> 1.18 * (baseWearM c tp * compoundMultiplierOf cp / 100) * max 1 l2"
    using k by (rule mult_left_mono)
  then show ?thesis unfolding rawRemaining_def by simp
qed


lemma circuitsData_FRA:
  "circuitsData ''FRA'' = Some (mkCircuit ''France'' 5.881 24 80 ''FR'' ''Europe/Paris'' ''Hard'')"
  by (simp add: circuitsData_def circuitsTable_def)

section \<open>Tyre wear against the lap count\<close>

text \<open>
  Claim C5. For every catalog circuit, every compound string and every tyre-point value
  of at least 1, the \<open>remaining\<close> value returned by \<open>calculateTyreWear\<close> does not
  increase when the lap count grows from \<open>laps1\<close> to \<open>laps2\<close>, both at least 1.
\<close>

theorem remaining_non_increasing:
  assumes "circuitsData circuit = Some c" "1 \<le> tyrePoints" "1 \<le> laps1" "laps1 \<le> laps2"
  shows "remaining_of (calculateTyreWear circuit cp laps2 tyrePoints)
          \<le> remaining_of (calculateTyreWear circuit cp laps1 tyrePoints)"
proof -
  have "0 < laps1" "0 < laps2" "0 < tyrePoints" using assms by linarith+
  then show ?thesis
    using assms(1) rawRemaining_antimono[OF assms(1) assms(4)]
    by (simp add: remaining_of_ok toFixed_mono)
qed


theorem remaining_non_increasing_witness:
  "circuitsData ''FRA'' = Some (mkCircuit ''France'' 5.881 24 80 ''FR'' ''Europe/Paris'' ''Hard'')
   \<and> (1::real) \<le> 49 \<and> (1::real) \<le> 6 \<and> (6::real) \<le> 12
   \<and> remaining_of (calculateTyreWear ''FRA'' ''M'' 12 49)
        \<le> remaining_of (calculateTyreWear ''FRA'' ''M'' 6 49)"
  using remaining_non_increasing [OF circuitsData_FRA, of 49 6 12 "''M''"] circuitsData_FRA
  by simp

section \<open>When the calculators fail\<close>

lemma calculateFuel_unknown:
  "getProperty circuitsData circuit = None \<Longrightarrow>
   calculateFuel circuit fp = Failure CircuitoNoEncontrado ''Fuel calculation''"
  by (simp add: calculateFuel_def handleError_def)

lemma calculateFuel_invalid:
  "getProperty circuitsData circuit = Some c \<Longrightarrow> fp \<le> 0 \<Longrightarrow>
   calculateFuel circuit fp = Failure PuntosCombustibleInvalidos ''Fuel calculation''"
  by (simp add: calculateFuel_def handleError_def)

lemma calculateFuel_success:
  "getProperty circuitsData circuit = Some c \<Longrightarrow> 0 < fp \<Longrightarrow>
   success (calculateFuel circuit fp)"
  by (simp add: calculateFuel_def handleSuccess_def Let_def)

lemma calculateStintFuel_unknown:
  "getProperty circuitsData circuit = None \<Longrightarrow>
   calculateStintFuel circuit fp l b = Failure CircuitoNoEncontrado ''Stint fuel calculation''"
  by (simp add: calculateStintFuel_def handleError_def)

lemma calculateStintFuel_invalid:
  "getProperty circuitsData circuit = Some c \<Longrightarrow> fp \<le> 0 \<or> l \<le> 0 \<Longrightarrow>
   calculateStintFuel circuit fp l b = Failure ValoresInvalidos ''Stint fuel calculation''"
  by (simp add: calculateStintFuel_def handleError_def)

lemma calculateStintFuel_success:
  "getProperty circuitsData circuit = Some c \<Longrightarrow> 0 < fp \<Longrightarrow> 0 < l \<Longrightarrow>
   success (calculateStintFuel circuit fp l b)"
  by (simp add: calculateStintFuel_def handleSuccess_def Let_def)

lemma optimizeStrategy_unknown:
  "getProperty circuitsData circuit = None \<Longrightarrow>
   optimizeStrategy circuit totalLaps tp fp cs
     = Failure CircuitoNoEncontrado ''Strategy optimization''"
  by (simp add: optimizeStrategy_def handleError_def)

lemma optimizeStrategy_ok:
  assumes "getProperty circuitsData circuit = Some c"
  shows "optimizeStrategy circuit totalLaps tp fp cs =
     handleSuccess
       \<lparr>recommended =
          (case take 5 (rankedStrategies c circuit totalLaps tp fp cs) of
             [] \<Rightarrow> None | s # rest \<Rightarrow> Some s),
        alternatives = drop 1 (take 5 (rankedStrategies c circuit totalLaps tp fp cs)),
        opt_circuitInfo =
          \<lparr>oci_name = nameOf c, oci_totalLaps = totalLaps, oci_difficulty = difficultyOf c\<rparr>\<rparr>"
proof -
  have w: "withScore c = (\<lambda>strategy.
             \<lparr>stints = stints strategy, totalFuel = totalFuel strategy,
              description = description strategy, score = evaluateStrategy strategy c\<rparr>)"
    by (rule ext) (simp add: withScore_def)
  show ?thesis
    by (simp only: optimizeStrategy_def Let_def assms option.case rankedStrategies_def
        candidateStrategies_def w)
qed

text \<open>
  The four functions with a failure result, on every circuit code: they fail with
  \<open>Circuito no encontrado\<close> exactly when the read \<open>this.circuitsData[circuit]\<close> gives
  \<open>undefined\<close>, and the calculators with the invalid-values error exactly when it
  gives a value and an input is at most 0.
\<close>

lemma calculateTyreWear_outcomes:
  "(tyre_success (calculateTyreWear circuit cp l tp)
      \<longleftrightarrow> getProperty circuitsData circuit \<noteq> None \<and> 0 < l \<and> 0 < tp)
   \<and> (calculateTyreWear circuit cp l tp = TyreFailure CircuitoNoEncontrado 0 100
      \<longleftrightarrow> getProperty circuitsData circuit = None)
   \<and> (calculateTyreWear circuit cp l tp = TyreFailure ValoresInvalidos 0 100
      \<longleftrightarrow> getProperty circuitsData circuit \<noteq> None \<and> (l \<le> 0 \<or> tp \<le> 0))"
proof (cases "getProperty circuitsData circuit")
  case None
  then show ?thesis by (simp add: calculateTyreWear_unknown)
next
  case (Some c)
  show ?thesis
  proof (cases "l \<le> 0 \<or> tp \<le> 0")
    case True
    then show ?thesis using Some by (auto simp: calculateTyreWear_invalid[OF Some])
  next
    case False
    then have "tyre_success (calculateTyreWear circuit cp l tp)"
      using Some by (simp add: tyre_success_ok)
    then show ?thesis using Some False by auto
  qed
qed

lemma calculateFuel_outcomes:
  "(success (calculateFuel circuit fp) \<longleftrightarrow> getProperty circuitsData circuit \<noteq> None \<and> 0 < fp)
   \<and> (calculateFuel circuit fp = Failure CircuitoNoEncontrado ''Fuel calculation''
      \<longleftrightarrow> getProperty circuitsData circuit = None)
   \<and> (calculateFuel circuit fp = Failure PuntosCombustibleInvalidos ''Fuel calculation''
      \<longleftrightarrow> getProperty circuitsData circuit \<noteq> None \<and> fp \<le> 0)"
proof (cases "getProperty circuitsData circuit")
  case None
  then show ?thesis by (simp add: calculateFuel_unknown)
next
  case (Some c)
  show ?thesis
  proof (cases "fp \<le> 0")
    case True
    then show ?thesis using Some by (simp add: calculateFuel_invalid[OF Some])
  next
    case False
    then have "success (calculateFuel circuit fp)"
      using Some by (simp add: calculateFuel_success)
    then show ?thesis using Some False by auto
  qed
qed

lemma calculateStintFuel_outcomes:
  "(success (calculateStintFuel circuit fp l b)
      \<longleftrightarrow> getProperty circuitsData circuit \<noteq> None \<and> 0 < fp \<and> 0 < l)
   \<and> (calculateStintFuel circuit fp l b = Failure CircuitoNoEncontrado ''Stint fuel calculation''
      \<longleftrightarrow> getProperty circuitsData circuit = None)
   \<and> (calculateStintFuel circuit fp l b = Failure ValoresInvalidos ''Stint fuel calculation''
      \<longleftrightarrow> getProperty circuitsData circuit \<noteq> None \<and> (fp \<le> 0 \<or> l \<le> 0))"
proof (cases "getProperty circuitsData circuit")
  case None
  then show ?thesis by (simp add: calculateStintFuel_unknown)
next
  case (Some c)
  show ?thesis
  proof (cases "fp \<le> 0 \<or> l \<le> 0")
    case True
    then show ?thesis using Some by (auto simp: calculateStintFuel_invalid[OF Some])
  next
    case False
    then have "success (calculateStintFuel circuit fp l b)"
      using Some by (simp add: calculateStintFuel_success)
    then show ?thesis using Some False by auto
  qed
qed

lemma optimizeStrategy_outcomes:
  "(success (optimizeStrategy circuit totalLaps tp fp cs)
      \<longleftrightarrow> getProperty circuitsData circuit \<noteq> None)
   \<and> (optimizeStrategy circuit totalLaps tp fp cs
          = Failure CircuitoNoEncontrado ''Strategy optimization''
      \<longleftrightarrow> getProperty circuitsData circuit = None)"
proof (cases "getProperty circuitsData circuit")
  case None
  then show ?thesis by (simp add: optimizeStrategy_unknown)
next
  case (Some c)
  have "success (optimizeStrategy circuit totalLaps tp fp cs)"
    by (simp add: optimizeStrategy_ok[OF Some] handleSuccess_def)
  then show ?thesis using Some by auto
qed

text \<open>
  \<open>analyzeStrategy\<close> reports no failure: on a circuit code that resolves to nothing both
  calculators fail for every stint, and the stint adds its time, no fuel and no risk.
\<close>

lemma analyzeStint_unresolved:
  assumes "getProperty circuitsData circuit = None"
  shows "analyzeStint circuit n (i, st) (t, f, r) =
           (t + laps st * 90 + (if int i < n - 1 then 25 else 0), f, r)"
  by (simp add: analyzeStint_def Let_def calculateTyreWear_unknown[OF assms]
      calculateStintFuel_unknown[OF assms])

lemma analyze_fold_unresolved:
  assumes "getProperty circuitsData circuit = None"
  shows "snd (fold (analyzeStint circuit n) (enumerate k sts) (t, f, r)) = (f, r)"
proof (induction sts arbitrary: k t)
  case Nil
  then show ?case by simp
next
  case (Cons x xs)
  show ?case
    unfolding enumerate_simps fold_Cons comp_apply analyzeStint_unresolved[OF assms] Cons.IH
    by (rule refl)
qed

lemma analyzeStrategy_unresolved:
  assumes "getProperty circuitsData circuit = None"
  shows "an_totalFuel (analyzeStrategy s circuit) = 0"
    and "riskLevel (analyzeStrategy s circuit) = 0"
proof -
  let ?acc = "fold (analyzeStint circuit (int (length (stints s)))) (enumerate 0 (stints s)) (0, 0, 0)"
  obtain a where acc: "?acc = (a, 0, 0)"
    using analyze_fold_unresolved[OF assms, of "int (length (stints s))" 0 "stints s" 0 0 0]
    by (cases ?acc) simp
  show "an_totalFuel (analyzeStrategy s circuit) = 0"
    by (simp add: analyzeStrategy_def Let_def acc formatNumber_def toFixed_def)
  show "riskLevel (analyzeStrategy s circuit) = 0"
    by (simp add: analyzeStrategy_def Let_def acc)
qed

text \<open>
  Claim C4, as the code has it. For a circuit code that is not a name inherited from
  \<open>Object.prototype\<close>: \<open>calculateTyreWear\<close>, \<open>calculateFuel\<close> and \<open>calculateStintFuel\<close>
  each succeed exactly when the code is a key of the catalog and every lap-count,
  tyre-point and fuel-point input is positive; otherwise the result is a failure value,
  \<open>Circuito no encontrado\<close> exactly when the code is not a key (checked first) and the
  invalid-values error exactly when the code is a key and some input is at most 0.
  \<open>optimizeStrategy\<close> fails exactly when the code is not a key. These four results are
  told apart by \<open>success\<close> (by \<open>tyre_success\<close>, the truth value of the possibly absent
  \<open>success\<close> property, for the tyre model). \<open>generateStrategies\<close>, \<open>evaluateStrategy\<close> and
  \<open>analyzeStrategy\<close> return a list, a number and a plain object with no such mark:
  for a code that is not a key \<open>analyzeStrategy\<close> returns an analysis with no fuel and
  no risk.
\<close>

theorem calculators_fail_exactly:
  assumes "circuit \<notin> set objectPrototypeNames"
  shows "(tyre_success (calculateTyreWear circuit cp l tp)
      \<longleftrightarrow> circuitsData circuit \<noteq> None \<and> 0 < l \<and> 0 < tp)
   \<and> (calculateTyreWear circuit cp l tp = TyreFailure CircuitoNoEncontrado 0 100
      \<longleftrightarrow> circuitsData circuit = None)
   \<and> (calculateTyreWear circuit cp l tp = TyreFailure ValoresInvalidos 0 100
      \<longleftrightarrow> circuitsData circuit \<noteq> None \<and> (l \<le> 0 \<or> tp \<le> 0))
   \<and> (success (calculateFuel circuit fp) \<longleftrightarrow> circuitsData circuit \<noteq> None \<and> 0 < fp)
   \<and> (calculateFuel circuit fp = Failure CircuitoNoEncontrado ''Fuel calculation''
      \<longleftrightarrow> circuitsData circuit = None)
   \<and> (calculateFuel circuit fp = Failure PuntosCombustibleInvalidos ''Fuel calculation''
      \<longleftrightarrow> circuitsData circuit \<noteq> None \<and> fp \<le> 0)
   \<and> (success (calculateStintFuel circuit fp l b)
      \<longleftrightarrow> circuitsData circuit \<noteq> None \<and> 0 < fp \<and> 0 < l)
   \<and> (calculateStintFuel circuit fp l b = Failure CircuitoNoEncontrado ''Stint fuel calculation''
      \<longleftrightarrow> circuitsData circuit = None)
   \<and> (calculateStintFuel circuit fp l b = Failure ValoresInvalidos ''Stint fuel calculation''
      \<longleftrightarrow> circuitsData circuit \<noteq> None \<and> (fp \<le> 0 \<or> l \<le> 0))
   \<and> (success (optimizeStrategy circuit totalLaps tp fp cs) \<longleftrightarrow> circuitsData circuit \<noteq> None)
   \<and> (optimizeStrategy circuit totalLaps tp fp cs
          = Failure CircuitoNoEncontrado ''Strategy optimization''
      \<longleftrightarrow> circuitsData circuit = None)
   \<and> (circuitsData circuit = None \<longrightarrow>
        an_totalFuel (analyzeStrategy s circuit) = 0 \<and> riskLevel (analyzeStrategy s circuit) = 0)"
proof -
  have g: "getProperty circuitsData circuit = None \<longleftrightarrow> circuitsData circuit = None"
    using assms by (simp add: getProperty_None_iff)
  have a: "circuitsData circuit = None \<longrightarrow>
        an_totalFuel (analyzeStrategy s circuit) = 0 \<and> riskLevel (analyzeStrategy s circuit) = 0"
    using g analyzeStrategy_unresolved by blast
  show ?thesis
    using calculateTyreWear_outcomes[of circuit cp l tp] calculateFuel_outcomes[of circuit fp]
      calculateStintFuel_outcomes[of circuit fp l b]
      optimizeStrategy_outcomes[of circuit totalLaps tp fp cs] a
    unfolding g by blast
qed

theorem calculators_fail_exactly_witness:
  "''FRA'' \<notin> set objectPrototypeNames
   \<and> tyre_success (calculateTyreWear ''FRA'' ''M'' 6 49)
   \<and> success (calculateFuel ''FRA'' 49)
   \<and> success (calculateStintFuel ''FRA'' 49 6 ''neutral'')
   \<and> ''Turkey'' \<notin> set objectPrototypeNames
   \<and> circuitsData ''Turkey'' = None
   \<and> calculateTyreWear ''Turkey'' ''M'' 6 49 = TyreFailure CircuitoNoEncontrado 0 100
   \<and> calculateFuel ''Turkey'' 49 = Failure CircuitoNoEncontrado ''Fuel calculation''
   \<and> an_totalFuel (analyzeStrategy
        \<lparr>stints = [\<lparr>stint = 1, compound = ''M'', laps = 27, boost = ''neutral''\<rparr>],
         totalFuel = 0, description = ''Estrategia sin paradas''\<rparr> ''Turkey'') = 0
   \<and> riskLevel (analyzeStrategy
        \<lparr>stints = [\<lparr>stint = 1, compound = ''M'', laps = 27, boost = ''neutral''\<rparr>],
         totalFuel = 0, description = ''Estrategia sin paradas''\<rparr> ''Turkey'') = 0"
proof -
  have f: "''FRA'' \<notin> set objectPrototypeNames" "''Turkey'' \<notin> set objectPrototypeNames"
    by (simp_all add: objectPrototypeNames_def objectPrototype_def)
  have t: "circuitsData ''Turkey'' = None"
    by (simp add: circuitsData_def circuitsTable_def)
  show ?thesis
    using f t circuitsData_FRA
      calculators_fail_exactly [OF f(1), of "''M''" 6 49 49 "''neutral''"]
      calculators_fail_exactly [OF f(2), of "''M''" 6 49 49 "''neutral''" _ _
        "\<lparr>stints = [\<lparr>stint = 1, compound = ''M'', laps = 27, boost = ''neutral''\<rparr>],
         totalFuel = 0, description = ''Estrategia sin paradas''\<rparr>"]
    by simp
qed

text \<open>
  The claim as stated fails for the functions that return plain values: at the name
  \<open>Turkey\<close>, which is no circuit code, both calculators fail for the stint, and
  \<open>analyzeStrategy\<close> still returns an ordinary analysis, with nothing that tells a
  failure from a strategy without fuel and risk.
\<close>

theorem analyzeStrategy_reports_no_failure:
  "\<not> tyre_success (calculateTyreWear ''Turkey'' ''M'' 27 100)
   \<and> \<not> success (calculateStintFuel ''Turkey'' 100 27 ''neutral'')
   \<and> analyzeStrategy
        \<lparr>stints = [\<lparr>stint = 1, compound = ''M'', laps = 27, boost = ''neutral''\<rparr>],
         totalFuel = 0, description = ''Estrategia sin paradas''\<rparr> ''Turkey''
      = \<lparr>estimatedTime = 2430, an_totalFuel = 0, riskLevel = 0, pitStops = 0\<rparr>"
proof -
  have g: "getProperty circuitsData ''Turkey'' = None"
    by (simp add: getProperty_None_iff circuitsData_def circuitsTable_def
        objectPrototypeNames_def objectPrototype_def)
  show ?thesis
    by (simp add: calculateTyreWear_unknown[OF g] calculateStintFuel_unknown[OF g]
        analyzeStrategy_def analyzeStint_unresolved[OF g] Let_def formatNumber_def toFixed_def)
qed

section \<open>What a failed tyre calculation looks like to its callers\<close>

lemma calculateTyreWear_failed:
  assumes "getProperty circuitsData circuit = None \<or> l \<le> 0 \<or> tp \<le> 0"
  shows "calculateTyreWear circuit cp l tp = TyreFailure CircuitoNoEncontrado 0 100
          \<or> calculateTyreWear circuit cp l tp = TyreFailure ValoresInvalidos 0 100"
proof (cases "getProperty circuitsData circuit")
  case None
  then show ?thesis by (simp add: calculateTyreWear_unknown)
next
  case (Some c)
  then have "l \<le> 0 \<or> tp \<le> 0" using assms by simp
  then show ?thesis using Some by (simp add: calculateTyreWear_invalid)
qed

lemma evaluateStint_failed:
  assumes "getProperty circuitsData (propertyKey (nameOf ci)) = None \<or> laps st \<le> 0"
  shows "evaluateStint ci st sc = (if laps st \<ge> 8 \<and> laps st \<le> 25 then sc - 5 + 5 else sc - 5)"
proof -
  have "remaining_of (calculateTyreWear (propertyKey (nameOf ci)) (compound st)
          (real_of_int (laps st)) 100) = 100"
    using calculateTyreWear_failed[of "propertyKey (nameOf ci)" "real_of_int (laps st)" 100
        "compound st"] assms
    by auto
  then show ?thesis by (simp add: evaluateStint_def Let_def)
qed

lemma analyzeStint_failed:
  assumes "getProperty circuitsData circuit = None \<or> laps st \<le> 0"
  shows "snd (snd (analyzeStint circuit n (i, st) (t, f, r))) = r"
proof -
  have "remaining_of (calculateTyreWear circuit (compound st) (real_of_int (laps st)) 100) = 100"
    using calculateTyreWear_failed[of circuit "real_of_int (laps st)" 100 "compound st"] assms
    by auto
  then show ?thesis by (simp add: analyzeStint_def Let_def)
qed

text \<open>
  Claim C10. When \<open>calculateTyreWear\<close> fails (the read of the circuit code from the
  catalog gives \<open>undefined\<close>, or the lap count or the tyre points are at most 0), it
  returns the error object with \<open>baseWear = 0\<close>, \<open>remaining = 100\<close> and no \<open>success\<close>. A
  per-stint check on \<open>remaining\<close> then sees 100: the evaluator takes its
  \<open>remaining > 80\<close> branch (5 points off, before the stint-length bonus) and the
  comparator adds no risk. By \<open>calculateTyreWear_outcomes\<close> above these are exactly the
  calls that do not succeed.
\<close>

theorem failed_tyre_wear_reads_as_new:
  assumes "getProperty circuitsData circuit = None \<or> l \<le> 0 \<or> tp \<le> 0"
  shows "(calculateTyreWear circuit cp l tp = TyreFailure CircuitoNoEncontrado 0 100
          \<or> calculateTyreWear circuit cp l tp = TyreFailure ValoresInvalidos 0 100)
     \<and> \<not> tyre_success (calculateTyreWear circuit cp l tp)
     \<and> baseWear_of (calculateTyreWear circuit cp l tp) = 0
     \<and> remaining_of (calculateTyreWear circuit cp l tp) = 100
     \<and> (getProperty circuitsData (propertyKey (nameOf ci)) = None \<or> laps st \<le> 0 \<longrightarrow>
          evaluateStint ci st sc = (if laps st \<ge> 8 \<and> laps st \<le> 25 then sc - 5 + 5 else sc - 5))
     \<and> (getProperty circuitsData circuit' = None \<or> laps st \<le> 0 \<longrightarrow>
          snd (snd (analyzeStint circuit' n (i, st) (t, f, r))) = r)"
  using calculateTyreWear_failed[OF assms, of cp]
  by (auto simp: evaluateStint_failed analyzeStint_failed)

theorem failed_tyre_wear_reads_as_new_witness:
  "getProperty circuitsData ''Turkey'' = None
   \<and> calculateTyreWear ''Turkey'' ''M'' 27 100 = TyreFailure CircuitoNoEncontrado 0 100
   \<and> remaining_of (calculateTyreWear ''Turkey'' ''M'' 27 100) = 100
   \<and> evaluateStint
        (Own (mkCircuit ''Turkey'' 5.162 27 90 ''TR'' ''Europe/Istanbul'' ''Very Hard''))
        \<lparr>stint = 1, compound = ''M'', laps = 27, boost = ''neutral''\<rparr> 100 = 95
   \<and> snd (snd (analyzeStint ''Turkey'' 1
        (0, \<lparr>stint = 1, compound = ''M'', laps = 27, boost = ''neutral''\<rparr>) (0, 0, 0))) = 0"
proof -
  have k: "getProperty circuitsData ''Turkey'' = None"
    by (simp add: getProperty_None_iff circuitsData_def circuitsTable_def
        objectPrototypeNames_def objectPrototype_def)
  show ?thesis
    using k failed_tyre_wear_reads_as_new [of "''Turkey''" 27 100 "''M''"
        "Own (mkCircuit ''Turkey'' 5.162 27 90 ''TR'' ''Europe/Istanbul'' ''Very Hard'')"
        "\<lparr>stint = 1, compound = ''M'', laps = 27, boost = ''neutral''\<rparr>" 100 "''Turkey''" 1 0 0 0 0]
    by (simp add: mkCircuit_def propertyKey_def calculateTyreWear_unknown)
qed

section \<open>Properties of the fuel consumption model\<close>

lemma boostLevels_keys:
  "boostLevels b = None \<longleftrightarrow> b \<notin> {''muy-alto'', ''alto'', ''neutral'', ''bajo'', ''muy-bajo''}"
  by (simp add: boostLevels_def boostTable_def)

lemma boostInfoFor_table:
  "boostInfoFor ''muy-alto'' = Own \<lparr>multiplier = 1.04, label = ''Muy Alto (+4%)''\<rparr>"
  "boostInfoFor ''alto'' = Own \<lparr>multiplier = 1.0161, label = ''Alto (+1.61%)''\<rparr>"
  "boostInfoFor ''neutral'' = Own \<lparr>multiplier = 1, label = ''Neutral''\<rparr>"
  "boostInfoFor ''bajo'' = Own \<lparr>multiplier = 0.988, label = ''Bajo (-1.2%)''\<rparr>"
  "boostInfoFor ''muy-bajo'' = Own \<lparr>multiplier = 0.9799, label = ''Muy Bajo (-2.01%)''\<rparr>"
  by (simp_all add: boostInfoFor_def getProperty_def boostLevels_def boostTable_def)

lemma boostInfoFor_other:
  assumes "b \<notin> {''muy-alto'', ''alto'', ''neutral'', ''bajo'', ''muy-bajo''}"
    and "b \<notin> set objectPrototypeNames"
  shows "boostInfoFor b = boostInfoFor ''neutral''"
proof -
  have "boostLevels b = None" using assms(1) by (simp add: boostLevels_keys)
  then have "getProperty boostLevels b = None"
    using assms(2) by (simp add: getProperty_None_iff)
  then show ?thesis by (simp add: boostInfoFor_def split: option.splits)
qed

lemma boostInfoFor_inherited:
  assumes "b \<in> set objectPrototypeNames"
  shows "\<exists>m. boostInfoFor b = Inherited m"
proof -
  have "b \<notin> {''muy-alto'', ''alto'', ''neutral'', ''bajo'', ''muy-bajo''}"
    using assms by (auto simp: objectPrototypeNames_def objectPrototype_def)
  then have n: "boostLevels b = None" by (simp add: boostLevels_keys)
  obtain m where "map_of objectPrototype b = Some m"
    using assms unfolding objectPrototypeNames_def
    by (metis domIff dom_map_of_conv_image_fst not_None_eq set_map)
  then show ?thesis using n by (simp add: boostInfoFor_def getProperty_def)
qed

lemma boostInfoFor_multiplier:
  assumes "b \<notin> set objectPrototypeNames"
  shows "multiplierOf (boostInfoFor b) =
     Some (if b = ''muy-alto'' then 1.04 else if b = ''alto'' then 1.0161
      else if b = ''neutral'' then 1 else if b = ''bajo'' then 0.988
      else if b = ''muy-bajo'' then 0.9799 else 1)"
proof (cases "b \<in> {''muy-alto'', ''alto'', ''neutral'', ''bajo'', ''muy-bajo''}")
  case True
  then show ?thesis by (auto simp: boostInfoFor_table)
next
  case False
  then have "boostInfoFor b = boostInfoFor ''neutral''" using assms by (rule boostInfoFor_other)
  then show ?thesis using False by (simp add: boostInfoFor_table)
qed

lemma boostInfoFor_multiplier_inherited:
  assumes "b \<in> set objectPrototypeNames"
  shows "multiplierOf (boostInfoFor b) = None"
  using boostInfoFor_inherited[OF assms] by auto

lemma boostInfoFor_pos:
  assumes "multiplierOf (boostInfoFor b) = Some m"
  shows "0 < m"
proof (cases "b \<in> set objectPrototypeNames")
  case True
  then show ?thesis using assms by (simp add: boostInfoFor_multiplier_inherited)
next
  case False
  then show ?thesis using assms by (auto simp: boostInfoFor_multiplier split: if_splits)
qed

lemma timeImpact_other:
  assumes "b \<notin> {''muy-alto'', ''alto'', ''neutral'', ''bajo'', ''muy-bajo''}"
    and "b \<notin> set objectPrototypeNames"
  shows "calculateBoostTimeImpact b l = calculateBoostTimeImpact ''neutral'' l"
proof -
  have "timeImpacts b = None" using assms(1) by (simp add: timeImpacts_def)
  then have "getProperty timeImpacts b = None"
    using assms(2) by (simp add: getProperty_None_iff)
  moreover have "getProperty timeImpacts ''neutral'' = Some (Own 0)"
    by (simp add: getProperty_def timeImpacts_def)
  ultimately show ?thesis by (simp add: calculateBoostTimeImpact_def)
qed

lemma calculateStintFuel_ok:
  assumes "circuitsData circuit = Some c" "0 < fp" "0 < l"
  shows "calculateStintFuel circuit fp l b = handleSuccess (stintFuelData c fp l b)"
proof -
  have ne: "\<not> (fp \<le> 0 \<or> l \<le> 0)" using assms by simp
  show ?thesis
  proof (cases "multiplierOf (boostInfoFor b)")
    case None
    show ?thesis
      by (simp only: calculateStintFuel_def Let_def circuit_own[OF assms(1)] option.case ne
          if_False None lengthOf.simps option.map arith_def formatNumber_def rawFuelPerLap_def
          stintFuelData_def)
  next
    case (Some m)
    have a: "\<bar>(1 - m) * rawFuelPerLap c fp * l\<bar> = \<bar>(1 - m) * rawFuelPerLap c fp\<bar> * l"
      using assms(3) by (simp add: abs_mult)
    show ?thesis
      by (simp only: calculateStintFuel_def Let_def circuit_own[OF assms(1)] option.case ne
          if_False Some lengthOf.simps option.map arith_def formatNumber_def
          rawFuelPerLap_def[symmetric] stintFuelData_def a abs_mult abs_of_pos[OF assms(3)])
  qed
qed

lemma stintFuelData_other:
  assumes "b \<notin> {''muy-alto'', ''alto'', ''neutral'', ''bajo'', ''muy-bajo''}"
    and "b \<notin> set objectPrototypeNames"
  shows "stintFuelData c fp l b =
           (stintFuelData c fp l ''neutral'')
             \<lparr>sf_boostInfo := (sf_boostInfo (stintFuelData c fp l ''neutral''))\<lparr>bi_level := b\<rparr>\<rparr>"
  by (simp add: stintFuelData_def boostInfoFor_other[OF assms] timeImpact_other[OF assms])

lemma calculateFuel_ok:
  assumes "circuitsData circuit = Some c" "0 < fp"
  shows "\<exists>d m. calculateFuel circuit fp = Success d m
          \<and> rf_fuelPerLap d = toFixed 3 (rawFuelPerLap c fp)"
proof -
  have n: "real_of_int (race_laps c) \<noteq> 0" using catalog_positive(3)[OF assms(1)] by simp
  have "98.45644 * (max 1 fp) powr (- 0.088463) * (length_km c * real_of_int (race_laps c))
          / 139.771 / real_of_int (race_laps c) = rawFuelPerLap c fp"
    unfolding rawFuelPerLap_def using n by (simp add: field_simps)
  then show ?thesis
    using assms(2)
    by (simp add: calculateFuel_def circuit_own[OF assms(1)] Let_def handleSuccess_def
        formatNumber_def arith_def)
qed

lemma rawFuelPerLap_antimono:
  assumes "circuitsData circuit = Some c" "f1 \<le> f2"
  shows "rawFuelPerLap c f2 \<le> rawFuelPerLap c f1"
proof -
  have "max 1 f1 \<le> max 1 f2" using assms(2) by simp
  then have "(max 1 f2) powr (- 0.088463) \<le> (max 1 f1) powr (- 0.088463)"
    by (intro powr_mono2') simp_all
  then show ?thesis
    unfolding rawFuelPerLap_def using catalog_positive(1)[OF assms(1)]
    by (simp add: mult_left_mono mult_right_mono divide_right_mono)
qed

lemma rawFuelPerLap_strict:
  assumes "circuitsData circuit = Some c" "1 \<le> f1" "f1 < f2"
  shows "rawFuelPerLap c f2 < rawFuelPerLap c f1"
proof -
  have "f2 powr (- 0.088463) < f1 powr (- 0.088463)"
    using assms by (intro powr_less_mono2_neg) simp_all
  moreover have "max 1 f1 = f1" "max 1 f2 = f2" using assms by simp_all
  ultimately show ?thesis
    unfolding rawFuelPerLap_def using catalog_positive(1)[OF assms(1)]
    by (simp add: divide_strict_right_mono)
qed

lemma rawFuelPerLap_pos:
  assumes "circuitsData circuit = Some c"
  shows "0 < rawFuelPerLap c f"
  unfolding rawFuelPerLap_def using catalog_positive(1)[OF assms] by simp


lemma circuitsData_ABU:
  "circuitsData ''ABU'' = Some (mkCircuit ''Abu Dhabi'' 5.410 25 50 ''AE'' ''Asia/Dubai'' ''Medium'')"
  by (simp add: circuitsData_def circuitsTable_def)

lemma circuitsData_MON:
  "circuitsData ''MON'' = Some (mkCircuit ''Monaco'' 4.015 29 20 ''MC'' ''Europe/Monaco'' ''Very Hard'')"
  by (simp add: circuitsData_def circuitsTable_def)

lemma stintFuel_value:
  assumes "circuitsData circuit = Some c" "0 < fp" "0 < l"
  shows "map_option sf_stintFuel (data_of (calculateStintFuel circuit fp l b))
           = Some (formatNumber
               (map_option (\<lambda>m. rawFuelPerLap c fp * l * m) (multiplierOf (boostInfoFor b))) 2)"
  by (simp only: calculateStintFuel_ok[OF assms] handleSuccess_def data_of.simps option.map
      stintFuelData_def StintFuel.select_convs)

lemma stintFuel_level:
  assumes "circuitsData circuit = Some c" "0 < fp" "0 < l"
  shows "map_option (\<lambda>d. bi_level (sf_boostInfo d)) (data_of (calculateStintFuel circuit fp l b))
           = Some b"
  by (simp only: calculateStintFuel_ok[OF assms] handleSuccess_def data_of.simps option.map
      stintFuelData_def StintFuel.select_convs BoostInfo.select_convs)

text \<open>
  Claim C6, as the code has it. For every known circuit, fuel points of at least 1, a
  lap count of at least 1 and a boost key that is not a name inherited from
  \<open>Object.prototype\<close>, \<open>calculateStintFuel\<close> succeeds and its \<open>stintFuel\<close> is
  \<open>fuelPerLap * laps * multiplier\<close> rounded to two decimals by \<open>toFixed(2)\<close>, with
  \<open>fuelPerLap = 98.45644 * fuelPoints^(-0.088463) * length / 139.771\<close> and the multiplier
  of the fixed table (1 for a key that is not in it). For such a boost key that is not in
  the table the returned data is that of the call with \<open>neutral\<close>, except that
  \<open>boostInfo.level\<close> echoes the key given.
\<close>

theorem stintFuel_rounded_product:
  assumes "circuitsData circuit = Some c" "1 \<le> fp" "1 \<le> l"
    and "b \<notin> set objectPrototypeNames"
  shows "\<exists>d m. calculateStintFuel circuit fp l b = Success d m
     \<and> sf_stintFuel d =
          toFixed 2 (98.45644 * fp powr (- 0.088463) * length_km c / 139.771 * l
            * (if b = ''muy-alto'' then 1.04 else if b = ''alto'' then 1.0161
               else if b = ''neutral'' then 1 else if b = ''bajo'' then 0.988
               else if b = ''muy-bajo'' then 0.9799 else 1))
     \<and> (b \<notin> {''muy-alto'', ''alto'', ''neutral'', ''bajo'', ''muy-bajo''} \<longrightarrow>
          (\<exists>d0 m0. calculateStintFuel circuit fp l ''neutral'' = Success d0 m0
             \<and> d = d0\<lparr>sf_boostInfo := (sf_boostInfo d0)\<lparr>bi_level := b\<rparr>\<rparr>))"
proof -
  have p: "0 < fp" "0 < l" using assms by linarith+
  have m: "max 1 fp = fp" using assms by simp
  have raw: "rawFuelPerLap c fp = 98.45644 * fp powr (- 0.088463) * length_km c / 139.771"
    by (simp add: rawFuelPerLap_def m)
  note ok = calculateStintFuel_ok[OF assms(1) p]
  have v: "sf_stintFuel (stintFuelData c fp l b) =
          toFixed 2 (98.45644 * fp powr (- 0.088463) * length_km c / 139.771 * l
            * (if b = ''muy-alto'' then 1.04 else if b = ''alto'' then 1.0161
               else if b = ''neutral'' then 1 else if b = ''bajo'' then 0.988
               else if b = ''muy-bajo'' then 0.9799 else 1))"
    by (simp only: stintFuelData_def StintFuel.select_convs raw
        boostInfoFor_multiplier[OF assms(4)] option.map formatNumber_def option.case)
  show ?thesis
  proof (intro exI conjI impI)
    show "calculateStintFuel circuit fp l b
            = Success (stintFuelData c fp l b) (''Operaci'' @ [CHR 0xC3, CHR 0xB3] @ ''n exitosa'')"
      by (simp only: ok handleSuccess_def)
    show "sf_stintFuel (stintFuelData c fp l b) =
          toFixed 2 (98.45644 * fp powr (- 0.088463) * length_km c / 139.771 * l
            * (if b = ''muy-alto'' then 1.04 else if b = ''alto'' then 1.0161
               else if b = ''neutral'' then 1 else if b = ''bajo'' then 0.988
               else if b = ''muy-bajo'' then 0.9799 else 1))"
      by (rule v)
    show "calculateStintFuel circuit fp l ''neutral''
            = Success (stintFuelData c fp l ''neutral'') (''Operaci'' @ [CHR 0xC3, CHR 0xB3] @ ''n exitosa'')"
      by (simp only: ok handleSuccess_def)
    assume "b \<notin> {''muy-alto'', ''alto'', ''neutral'', ''bajo'', ''muy-bajo''}"
    then show "stintFuelData c fp l b =
           (stintFuelData c fp l ''neutral'')
             \<lparr>sf_boostInfo := (sf_boostInfo (stintFuelData c fp l ''neutral''))\<lparr>bi_level := b\<rparr>\<rparr>"
      using assms(4) by (rule stintFuelData_other)
  qed
qed

theorem stintFuel_rounded_product_witness:
  "circuitsData ''MON'' = Some (mkCircuit ''Monaco'' 4.015 29 20 ''MC'' ''Europe/Monaco'' ''Very Hard'')
   \<and> (1::real) \<le> 100 \<and> (1::real) \<le> 10
   \<and> ''turbo'' \<notin> set objectPrototypeNames
   \<and> ''turbo'' \<notin> {''muy-alto'', ''alto'', ''neutral'', ''bajo'', ''muy-bajo''}
   \<and> (\<exists>d m d0 m0. calculateStintFuel ''MON'' 100 10 ''turbo'' = Success d m
         \<and> calculateStintFuel ''MON'' 100 10 ''neutral'' = Success d0 m0
         \<and> sf_stintFuel d = toFixed 2 (98.45644 * 100 powr (- 0.088463) * 4.015 / 139.771 * 10 * 1)
         \<and> d = d0\<lparr>sf_boostInfo := (sf_boostInfo d0)\<lparr>bi_level := ''turbo''\<rparr>\<rparr>)"
proof -
  have n: "''turbo'' \<notin> {''muy-alto'', ''alto'', ''neutral'', ''bajo'', ''muy-bajo''}" by simp
  have i: "''turbo'' \<notin> set objectPrototypeNames"
    by (simp add: objectPrototypeNames_def objectPrototype_def)
  show ?thesis
    using stintFuel_rounded_product [OF circuitsData_MON _ _ i, of 100 10] n i circuitsData_MON
    by (auto simp: mkCircuit_def)
qed

text \<open>
  The claim as stated fails twice at Abu Dhabi with one fuel point and one lap: the
  product is \<open>3.8108...\<close> and the function returns \<open>3.81\<close>; and the result for the
  unknown key \<open>turbo\<close> differs from the one for \<open>neutral\<close> (in \<open>boostInfo.level\<close>).
\<close>

theorem stintFuel_not_the_exact_product:
  "map_option sf_stintFuel (data_of (calculateStintFuel ''ABU'' 1 1 ''neutral'')) = Some 3.81
   \<and> (98.45644 * 1 powr (- 0.088463) * 5.410 / 139.771 * 1 * 1 :: real) \<noteq> 3.81
   \<and> calculateStintFuel ''ABU'' 1 1 ''turbo'' \<noteq> calculateStintFuel ''ABU'' 1 1 ''neutral''"
proof -
  let ?c = "mkCircuit ''Abu Dhabi'' 5.410 25 50 ''AE'' ''Asia/Dubai'' ''Medium''"
  have v: "formatNumber (map_option (\<lambda>m. rawFuelPerLap ?c 1 * 1 * m)
             (multiplierOf (boostInfoFor ''neutral''))) 2 = toFixed 2 (1331623351 / 349427500)"
    by (simp add: rawFuelPerLap_def mkCircuit_def boostInfoFor_table formatNumber_def)
  have f: "toFixed 2 (1331623351 / 349427500) = 3.81"
    by (simp add: toFixed_def)
  have "map_option sf_stintFuel (data_of (calculateStintFuel ''ABU'' 1 1 ''neutral''))
          = Some (formatNumber (map_option (\<lambda>m. rawFuelPerLap ?c 1 * 1 * m)
             (multiplierOf (boostInfoFor ''neutral''))) 2)"
    by (rule stintFuel_value[OF circuitsData_ABU]) simp_all
  then have "map_option sf_stintFuel (data_of (calculateStintFuel ''ABU'' 1 1 ''neutral'')) = Some 3.81"
    unfolding v f .
  moreover have "(98.45644 * 1 powr (- 0.088463) * 5.410 / 139.771 * 1 * 1 :: real) \<noteq> 3.81"
    by simp
  moreover have "calculateStintFuel ''ABU'' 1 1 ''turbo'' \<noteq> calculateStintFuel ''ABU'' 1 1 ''neutral''"
  proof
    assume e: "calculateStintFuel ''ABU'' 1 1 ''turbo'' = calculateStintFuel ''ABU'' 1 1 ''neutral''"
    have "Some ''turbo'' = map_option (\<lambda>d. bi_level (sf_boostInfo d)) (data_of (calculateStintFuel ''ABU'' 1 1 ''turbo''))"
      by (rule stintFuel_level[OF circuitsData_ABU, symmetric]) simp_all
    also have "\<dots> = Some ''neutral''"
      unfolding e by (rule stintFuel_level[OF circuitsData_ABU]) simp_all
    finally show False by simp
  qed
  ultimately show ?thesis by blast
qed

text \<open>
  A boost key that is a name inherited from \<open>Object.prototype\<close> is left out of the
  statement above. The read \<open>this.boostLevels[boost]\<close> then finds a function, the
  \<open>||\<close> does not fall back to \<open>neutral\<close>, the multiplier is \<open>undefined\<close> and the three
  boosted amounts are formatted from \<open>NaN\<close>.
\<close>

lemma calculateStintFuel_inherited_boost:
  assumes "circuitsData circuit = Some c" "0 < fp" "0 < l" "b \<in> set objectPrototypeNames"
  shows "\<exists>d m. calculateStintFuel circuit fp l b = Success d m
     \<and> sf_stintFuel d = 0 \<and> sf_fuelPerLap d = 0 \<and> sf_fuelSaving d = 0
     \<and> bi_multiplier (sf_boostInfo d) = None
     \<and> sf_baseFuelPerLap d = toFixed 3 (rawFuelPerLap c fp)"
  by (simp add: calculateStintFuel_ok[OF assms(1,2,3)] handleSuccess_def stintFuelData_def
      boostInfoFor_multiplier_inherited[OF assms(4)] formatNumber_def)

text \<open>
  Claim C8, as the code has it. For a fixed catalog circuit and accepted fuel points
  \<open>0 < f1 \<le> f2\<close>: the fuel per lap of the formula does not increase, it is strictly
  smaller at \<open>f2\<close> when \<open>1 \<le> f1 < f2\<close>, and it is the same when \<open>f2 \<le> 1\<close> (the clamp
  \<open>Math.max(1, fuelPoints)\<close>). What \<open>calculateFuel\<close> returns as \<open>fuelPerLap\<close> and
  \<open>calculateStintFuel\<close> as \<open>baseFuelPerLap\<close> is that value rounded to three decimals,
  and these (and the boosted \<open>fuelPerLap\<close> of a stint) do not increase either.
\<close>

theorem fuelPerLap_decreasing:
  assumes "circuitsData circuit = Some c" "0 < f1" "f1 \<le> f2" "0 < l"
  shows "\<exists>d1 m1 d2 m2 s1 n1 s2 n2.
       calculateFuel circuit f1 = Success d1 m1 \<and> calculateFuel circuit f2 = Success d2 m2
     \<and> calculateStintFuel circuit f1 l b = Success s1 n1
     \<and> calculateStintFuel circuit f2 l b = Success s2 n2
     \<and> rf_fuelPerLap d1 = toFixed 3 (rawFuelPerLap c f1)
     \<and> rf_fuelPerLap d2 = toFixed 3 (rawFuelPerLap c f2)
     \<and> sf_baseFuelPerLap s1 = toFixed 3 (rawFuelPerLap c f1)
     \<and> sf_baseFuelPerLap s2 = toFixed 3 (rawFuelPerLap c f2)
     \<and> rawFuelPerLap c f2 \<le> rawFuelPerLap c f1
     \<and> (1 \<le> f1 \<and> f1 < f2 \<longrightarrow> rawFuelPerLap c f2 < rawFuelPerLap c f1)
     \<and> (f2 \<le> 1 \<longrightarrow> rawFuelPerLap c f2 = rawFuelPerLap c f1)
     \<and> rf_fuelPerLap d2 \<le> rf_fuelPerLap d1
     \<and> sf_baseFuelPerLap s2 \<le> sf_baseFuelPerLap s1
     \<and> sf_fuelPerLap s2 \<le> sf_fuelPerLap s1"
proof -
  have p2: "0 < f2" using assms by linarith
  obtain d1 m1 where d1: "calculateFuel circuit f1 = Success d1 m1"
      "rf_fuelPerLap d1 = toFixed 3 (rawFuelPerLap c f1)"
    using calculateFuel_ok[OF assms(1,2)] by blast
  obtain d2 m2 where d2: "calculateFuel circuit f2 = Success d2 m2"
      "rf_fuelPerLap d2 = toFixed 3 (rawFuelPerLap c f2)"
    using calculateFuel_ok[OF assms(1) p2] by blast
  note s1 = calculateStintFuel_ok[OF assms(1,2,4), of b]
  note s2 = calculateStintFuel_ok[OF assms(1) p2 assms(4), of b]
  have le: "rawFuelPerLap c f2 \<le> rawFuelPerLap c f1"
    by (rule rawFuelPerLap_antimono[OF assms(1,3)])
  have lt: "1 \<le> f1 \<and> f1 < f2 \<longrightarrow> rawFuelPerLap c f2 < rawFuelPerLap c f1"
    using rawFuelPerLap_strict[OF assms(1)] by blast
  have eq: "f2 \<le> 1 \<longrightarrow> rawFuelPerLap c f2 = rawFuelPerLap c f1"
  proof
    assume "f2 \<le> 1"
    then have "max 1 f2 = 1" "max 1 f1 = 1" using assms(3) by simp_all
    then show "rawFuelPerLap c f2 = rawFuelPerLap c f1" by (simp add: rawFuelPerLap_def)
  qed
  have le3: "toFixed 3 (rawFuelPerLap c f2) \<le> toFixed 3 (rawFuelPerLap c f1)"
    using le by (rule toFixed_mono)
  have leb: "formatNumber (map_option (\<lambda>m. rawFuelPerLap c f2 * m) (multiplierOf (boostInfoFor b))) 3
        \<le> formatNumber (map_option (\<lambda>m. rawFuelPerLap c f1 * m) (multiplierOf (boostInfoFor b))) 3"
  proof (cases "multiplierOf (boostInfoFor b)")
    case None
    then show ?thesis by (simp add: formatNumber_def)
  next
    case (Some m)
    have "rawFuelPerLap c f2 * m \<le> rawFuelPerLap c f1 * m"
      using le boostInfoFor_pos[OF Some] by (simp add: mult_right_mono)
    then have "toFixed 3 (rawFuelPerLap c f2 * m) \<le> toFixed 3 (rawFuelPerLap c f1 * m)"
      by (rule toFixed_mono)
    then show ?thesis by (simp add: Some formatNumber_def)
  qed
  show ?thesis
    unfolding s1 s2 handleSuccess_def using d1 d2 le lt eq le3 leb
    by (simp add: stintFuelData_def)
qed

theorem fuelPerLap_decreasing_witness:
  "circuitsData ''MON'' = Some (mkCircuit ''Monaco'' 4.015 29 20 ''MC'' ''Europe/Monaco'' ''Very Hard'')
   \<and> (0::real) < 100 \<and> (100::real) \<le> 200 \<and> (0::real) < 10
   \<and> (1::real) \<le> 100 \<and> (100::real) < 200
   \<and> rawFuelPerLap (mkCircuit ''Monaco'' 4.015 29 20 ''MC'' ''Europe/Monaco'' ''Very Hard'') 200
        < rawFuelPerLap (mkCircuit ''Monaco'' 4.015 29 20 ''MC'' ''Europe/Monaco'' ''Very Hard'') 100
   \<and> (\<exists>d1 m1 d2 m2. calculateFuel ''MON'' 100 = Success d1 m1
          \<and> calculateFuel ''MON'' 200 = Success d2 m2
          \<and> rf_fuelPerLap d2 \<le> rf_fuelPerLap d1)"
  using fuelPerLap_decreasing [OF circuitsData_MON, of 100 200 10 "''neutral''"] circuitsData_MON
  by auto

text \<open>
  Strictly decreasing fails on the accepted fuel points below 1: one half and three
  quarters are both clamped to 1 and give the same results.
\<close>

theorem fuelPerLap_constant_below_one:
  "success (calculateFuel ''MON'' (1 / 2))
   \<and> success (calculateFuel ''MON'' (3 / 4))
   \<and> calculateFuel ''MON'' (1 / 2) = calculateFuel ''MON'' (3 / 4)
   \<and> success (calculateStintFuel ''MON'' (1 / 2) 10 ''neutral'')
   \<and> calculateStintFuel ''MON'' (1 / 2) 10 ''neutral'' = calculateStintFuel ''MON'' (3 / 4) 10 ''neutral''"
  by (simp add: calculateFuel_def calculateStintFuel_def circuit_own[OF circuitsData_MON]
      Let_def handleSuccess_def)

section \<open>Tyre wear against the compound\<close>

lemma toUpperCase_codes:
  "toUpperCase ''SS'' = ''SS''" "toUpperCase ''S'' = ''S''"
  "toUpperCase ''M'' = ''M''" "toUpperCase ''H'' = ''H''"
  by code_simp+

lemma compoundMultiplierOf_codes:
  "compoundMultiplierOf ''SS'' = 2.06" "compoundMultiplierOf ''S'' = 0.642"
  "compoundMultiplierOf ''M'' = 1" "compoundMultiplierOf ''H'' = 0.375"
  by (simp_all add: compoundMultiplierOf_def toUpperCase_codes compoundMultipliers_def)

lemma rawRemaining_compound_strict:
  assumes "circuitsData circuit = Some c" "compoundMultiplierOf cp1 < compoundMultiplierOf cp2"
  shows "rawRemaining c cp2 l tp < rawRemaining c cp1 l tp"
proof -
  have w: "0 < baseWearM c tp" by (rule baseWearM_pos[OF assms(1)])
  have n: "0 < max 1 l" by simp
  define a where "a = baseWearM c tp * compoundMultiplierOf cp1"
  define b where "b = baseWearM c tp * compoundMultiplierOf cp2"
  have "a < b" unfolding a_def b_def using w assms(2) by (rule mult_strict_left_mono[rotated])
  then have "1.18 * (a / 100) < 1.18 * (b / 100)" by simp
  then have "1.18 * (a / 100) * max 1 l < 1.18 * (b / 100) * max 1 l"
    using n by (rule mult_strict_right_mono)
  then show ?thesis unfolding rawRemaining_def a_def b_def by simp
qed

lemma powr_lower_bound:
  fixes x :: real
  assumes "1 \<le> x" "x \<le> 129"
  shows "2 / 3 \<le> x powr (- 0.0778)"
proof -
  have "x powr 0.0778 \<le> x powr (1 / 12)"
    using assms(1) by (intro powr_mono) simp_all
  also have "\<dots> \<le> ((3 / 2) ^ 12) powr (1 / 12)"
  proof (rule powr_mono2)
    have "(129::real) \<le> (3 / 2) ^ 12" by (simp add: power_divide)
    then show "x \<le> (3 / 2) ^ 12" using assms(2) by linarith
  qed (use assms in simp_all)
  also have "\<dots> = ((3 / 2) powr (real 12)) powr (1 / 12)"
  proof -
    have "((3 / 2)::real) powr (real 12) = (3 / 2) ^ 12" by (rule powr_realpow) simp
    then show ?thesis by (simp only:)
  qed
  also have "\<dots> = (3 / 2) powr (real 12 * (1 / 12))"
    by (rule powr_powr)
  also have "\<dots> = 3 / 2"
  proof -
    have "real 12 * (1 / 12) = 1" by simp
    then show ?thesis by (simp only: powr_one)
  qed
  finally have u: "x powr 0.0778 \<le> 3 / 2" .
  have p: "0 < x powr 0.0778" using assms(1) by simp
  have "x powr (- 0.0778) = inverse (x powr 0.0778)" by (rule powr_minus)
  moreover have "inverse (3 / 2) \<le> inverse (x powr 0.0778)"
    using u p by (rule le_imp_inverse_le)
  ultimately show ?thesis by simp
qed

lemma exp_ge_two_power:
  assumes "real n \<le> y"
  shows "2 ^ n \<le> exp y"
proof -
  have "(2::real) \<le> exp 1" using exp_ge_add_one_self[of 1] by simp
  then have "(2::real) ^ n \<le> exp 1 ^ n" by (intro power_mono) simp_all
  also have "\<dots> = exp (real n)" using exp_of_nat_mult[of n "1::real"] by simp
  also have "\<dots> \<le> exp y" using assms by simp
  finally show ?thesis .
qed

lemma toFixed2_near_100:
  assumes "0 \<le> r" "r \<le> 0.005"
  shows "toFixed 2 (100 - r) = 100"
proof -
  have "\<lfloor>(100 - r) * 10 ^ 2 + 1 / 2\<rfloor> = 10000"
    using assms by (intro floor_unique) simp_all
  moreover have "\<not> 100 - r < 0" using assms by simp
  ultimately show ?thesis by (simp add: toFixed_def)
qed

lemma baseWearM_lower:
  assumes "3 / 2 \<le> tp" "tp \<le> 193" "0 \<le> tyreWear c" "0 \<le> length_km c"
  shows "1.43 * (2 / 3) * (0.00364 * tyreWear c + 0.354) * (length_km c * 1.384612) * 150 / 10000 * 100
           \<le> baseWearM c tp"
proof -
  have m: "max 1 tp = tp" using assms(1) by simp
  have "2 / 3 \<le> (tp / 1.5) powr (- 0.0778)"
    using assms(1,2) by (intro powr_lower_bound) simp_all
  then have "1.43 * (2 / 3) \<le> 1.43 * (tp / 1.5) powr (- 0.0778)" by simp
  moreover have "0 \<le> 0.00364 * tyreWear c + 0.354" using assms(3) by simp
  ultimately have "1.43 * (2 / 3) * (0.00364 * tyreWear c + 0.354)
       \<le> 1.43 * (tp / 1.5) powr (- 0.0778) * (0.00364 * tyreWear c + 0.354)"
    by (rule mult_right_mono)
  moreover have "0 \<le> length_km c * 1.384612" using assms(4) by simp
  ultimately have "1.43 * (2 / 3) * (0.00364 * tyreWear c + 0.354) * (length_km c * 1.384612)
       \<le> 1.43 * (tp / 1.5) powr (- 0.0778) * (0.00364 * tyreWear c + 0.354) * (length_km c * 1.384612)"
    by (rule mult_right_mono)
  then show ?thesis unfolding baseWearM_def m by simp
qed

lemma baseWearM_ABU:
  "5 \<le> baseWearM (mkCircuit ''Abu Dhabi'' 5.410 25 50 ''AE'' ''Asia/Dubai'' ''Medium'') 100"
proof -
  let ?c = "mkCircuit ''Abu Dhabi'' 5.410 25 50 ''AE'' ''Asia/Dubai'' ''Medium''"
  have "1.43 * (2 / 3) * (0.00364 * tyreWear ?c + 0.354) * (length_km ?c * 1.384612) * 150 / 10000 * 100
           \<le> baseWearM ?c 100"
    by (rule baseWearM_lower) (simp_all add: mkCircuit_def)
  moreover have "5 \<le> 1.43 * (2 / 3) * (0.00364 * tyreWear ?c + 0.354) * (length_km ?c * 1.384612) * 150 / 10000 * 100"
    by (simp add: mkCircuit_def)
  ultimately show ?thesis by linarith
qed

lemma rawRemaining_ABU_small:
  assumes "0.375 \<le> compoundMultiplierOf cp"
  shows "0 \<le> rawRemaining (mkCircuit ''Abu Dhabi'' 5.410 25 50 ''AE'' ''Asia/Dubai'' ''Medium'') cp 1000 100"
    and "rawRemaining (mkCircuit ''Abu Dhabi'' 5.410 25 50 ''AE'' ''Asia/Dubai'' ''Medium'') cp 1000 100 \<le> 0.005"
proof -
  let ?c = "mkCircuit ''Abu Dhabi'' 5.410 25 50 ''AE'' ''Asia/Dubai'' ''Medium''"
  define z where "z = baseWearM ?c 100 * compoundMultiplierOf cp"
  let ?y = "1.18 * (z / 100) * max 1 1000"
  show "0 \<le> rawRemaining ?c cp 1000 100" by (simp add: rawRemaining_def)
  have "5 * 0.375 \<le> z"
    unfolding z_def using baseWearM_ABU assms by (intro mult_mono) simp_all
  then have "real 15 \<le> ?y" by simp
  then have "2 ^ 15 \<le> exp ?y" by (rule exp_ge_two_power)
  then have "(20000::real) \<le> exp ?y" by simp
  then have "inverse (exp ?y) \<le> inverse 20000" by (intro le_imp_inverse_le) simp_all
  then have "exp (- ?y) \<le> 1 / 20000" by (simp add: exp_minus)
  then have "100 * exp (- ?y) \<le> 0.005" by simp
  then show "rawRemaining ?c cp 1000 100 \<le> 0.005" unfolding rawRemaining_def z_def by simp
qed

text \<open>
  Claim C7, as the code has it. For every catalog circuit, lap count of at least 1 and
  tyre points of at least 1, with the multipliers Hard 0.375 < Soft 0.642 < Medium 1.0 <
  SuperSoft 2.06: the total wear of the Hard compound before formatting,
  \<open>100 - remaining\<close>, is strictly smaller than that of the SuperSoft compound, and the
  \<open>totalWear\<close> the function returns, which is that value rounded to two decimals, is
  smaller or equal.
\<close>

theorem hard_wears_less_than_supersoft:
  assumes "circuitsData circuit = Some c" "1 \<le> l" "1 \<le> tp"
  shows "compoundMultiplierOf ''H'' = 0.375 \<and> compoundMultiplierOf ''S'' = 0.642
     \<and> compoundMultiplierOf ''M'' = 1 \<and> compoundMultiplierOf ''SS'' = 2.06
     \<and> totalWear_of (calculateTyreWear circuit ''H'' l tp)
          = Some (toFixed 2 (100 - rawRemaining c ''H'' l tp))
     \<and> totalWear_of (calculateTyreWear circuit ''SS'' l tp)
          = Some (toFixed 2 (100 - rawRemaining c ''SS'' l tp))
     \<and> 100 - rawRemaining c ''H'' l tp < 100 - rawRemaining c ''SS'' l tp
     \<and> toFixed 2 (100 - rawRemaining c ''H'' l tp) \<le> toFixed 2 (100 - rawRemaining c ''SS'' l tp)"
proof -
  have p: "0 < l" "0 < tp" using assms by linarith+
  have lt: "rawRemaining c ''SS'' l tp < rawRemaining c ''H'' l tp"
    by (rule rawRemaining_compound_strict[OF assms(1)]) (simp add: compoundMultiplierOf_codes)
  then have "100 - rawRemaining c ''H'' l tp \<le> 100 - rawRemaining c ''SS'' l tp" by simp
  then have "toFixed 2 (100 - rawRemaining c ''H'' l tp) \<le> toFixed 2 (100 - rawRemaining c ''SS'' l tp)"
    by (rule toFixed_mono)
  then show ?thesis
    using lt by (simp add: compoundMultiplierOf_codes totalWear_of_ok[OF assms(1) p])
qed

theorem hard_wears_less_than_supersoft_witness:
  "circuitsData ''ABU'' = Some (mkCircuit ''Abu Dhabi'' 5.410 25 50 ''AE'' ''Asia/Dubai'' ''Medium'')
   \<and> (1::real) \<le> 12 \<and> (1::real) \<le> 100
   \<and> 100 - rawRemaining (mkCircuit ''Abu Dhabi'' 5.410 25 50 ''AE'' ''Asia/Dubai'' ''Medium'') ''H'' 12 100
       < 100 - rawRemaining (mkCircuit ''Abu Dhabi'' 5.410 25 50 ''AE'' ''Asia/Dubai'' ''Medium'') ''SS'' 12 100"
  using hard_wears_less_than_supersoft [OF circuitsData_ABU, of 12 100] circuitsData_ABU
  by simp

text \<open>
  The returned \<open>totalWear\<close> is not always strictly smaller: after 1000 laps at Abu Dhabi
  with 100 tyre points both compounds have less than 0.005 percent left, and both calls
  return \<open>100.00\<close>.
\<close>

theorem hard_equals_supersoft_after_rounding:
  "totalWear_of (calculateTyreWear ''ABU'' ''H'' 1000 100) = Some 100
   \<and> totalWear_of (calculateTyreWear ''ABU'' ''SS'' 1000 100) = Some 100"
proof -
  let ?c = "mkCircuit ''Abu Dhabi'' 5.410 25 50 ''AE'' ''Asia/Dubai'' ''Medium''"
  have h: "toFixed 2 (100 - rawRemaining ?c ''H'' 1000 100) = 100"
    by (rule toFixed2_near_100; rule rawRemaining_ABU_small) (simp_all add: compoundMultiplierOf_codes)
  have s: "toFixed 2 (100 - rawRemaining ?c ''SS'' 1000 100) = 100"
    by (rule toFixed2_near_100; rule rawRemaining_ABU_small) (simp_all add: compoundMultiplierOf_codes)
  have "totalWear_of (calculateTyreWear ''ABU'' ''H'' 1000 100) = Some (toFixed 2 (100 - rawRemaining ?c ''H'' 1000 100))"
    by (rule totalWear_of_ok[OF circuitsData_ABU]) simp_all
  moreover have "totalWear_of (calculateTyreWear ''ABU'' ''SS'' 1000 100) = Some (toFixed 2 (100 - rawRemaining ?c ''SS'' 1000 100))"
    by (rule totalWear_of_ok[OF circuitsData_ABU]) simp_all
  ultimately show ?thesis unfolding h s by simp
qed

section \<open>Properties of the strategy generator\<close>

lemma fold_laps_sum:
  "fold (\<lambda>st sum. sum + laps st) sts a = a + sum_list (map laps sts)"
  by (induction sts arbitrary: a) simp_all

lemma validateStrategy_iff:
  "validateStrategy s totalLaps \<longleftrightarrow>
     sum_list (map laps (stints s)) = totalLaps \<and> list_all (\<lambda>st. 0 < laps st) (stints s)"
  by (simp add: validateStrategy_def Let_def fold_laps_sum)

lemma length_balancedStints:
  "length (balancedStints n p i r sts) = length sts + nat (n - i)"
proof (induction n p i r sts rule: balancedStints.induct)
  case (1 n p i r sts)
  show ?case
  proof (cases "i < n")
    case True
    then have "nat (n - i) = Suc (nat (n - (i + 1)))" by simp
    then show ?thesis using True "1.IH" by (subst balancedStints.simps) simp
  next
    case False
    then show ?thesis by (subst balancedStints.simps) simp
  qed
qed

lemma sum_balancedStints:
  "i < n \<Longrightarrow>
   sum_list (map laps (balancedStints n p i r sts)) = sum_list (map laps sts) + r"
proof (induction n p i r sts rule: balancedStints.induct)
  case (1 n p i r sts)
  show ?case
  proof (cases "i + 1 < n")
    case True
    then have "i \<noteq> n - 1" by simp
    then show ?thesis using True "1.prems" "1.IH" by (subst balancedStints.simps) simp
  next
    case False
    then have l: "i = n - 1" using "1.prems" by simp
    have "balancedStints n p (i + 1) 0 
            (sts @ [\<lparr>stint = i + 1,
               compound = (if n > 1 then (if i = 0 then ''S'' else if i = n - 1 then ''H'' else p) else p),
               laps = r, boost = ''neutral''\<rparr>])
          = sts @ [\<lparr>stint = i + 1,
               compound = (if n > 1 then (if i = 0 then ''S'' else if i = n - 1 then ''H'' else p) else p),
               laps = r, boost = ''neutral''\<rparr>]"
      using False by (subst balancedStints.simps) simp
    then show ?thesis using l "1.prems" by (subst balancedStints.simps) simp
  qed
qed

lemma createBalancedStrategy_stints:
  "stints (createBalancedStrategy circuit totalLaps n cp tp fp) = balancedStints n cp 0 totalLaps []"
  by (simp add: createBalancedStrategy_def Let_def)

lemma generateStrategies_D:
  assumes "s \<in> set (generateStrategies circuit totalLaps tp fp maxS compounds minL maxL)"
  shows "\<exists>n cp. s = createBalancedStrategy circuit totalLaps n cp tp fp
        \<and> 1 \<le> n \<and> n \<le> maxS \<and> cp \<in> set compounds
        \<and> minL \<le> totalLaps div n \<and> totalLaps div n \<le> maxL
        \<and> validateStrategy s totalLaps"
proof -
  obtain n where n: "n \<in> set [1..maxS]"
    and s: "s \<in> set (if minL \<le> totalLaps div n \<and> totalLaps div n \<le> maxL
              then filter (\<lambda>strategy. validateStrategy strategy totalLaps)
                     (map (\<lambda>cp. createBalancedStrategy circuit totalLaps n cp tp fp) compounds)
              else [])"
    using assms unfolding generateStrategies_def Let_def by auto
  have avg: "minL \<le> totalLaps div n \<and> totalLaps div n \<le> maxL"
    using s by (cases "minL \<le> totalLaps div n \<and> totalLaps div n \<le> maxL") simp_all
  then obtain cp where "cp \<in> set compounds"
      "s = createBalancedStrategy circuit totalLaps n cp tp fp" "validateStrategy s totalLaps"
    using s by auto
  then show ?thesis using n avg by auto
qed

lemma generateStrategies_I:
  assumes "1 \<le> n" "n \<le> maxS" "cp \<in> set compounds"
    "minL \<le> totalLaps div n" "totalLaps div n \<le> maxL"
    "validateStrategy (createBalancedStrategy circuit totalLaps n cp tp fp) totalLaps"
  shows "createBalancedStrategy circuit totalLaps n cp tp fp
           \<in> set (generateStrategies circuit totalLaps tp fp maxS compounds minL maxL)"
proof -
  have n: "n \<in> set [1..maxS]" using assms(1,2) by simp
  have "createBalancedStrategy circuit totalLaps n cp tp fp
      \<in> set (if minL \<le> totalLaps div n \<and> totalLaps div n \<le> maxL
              then filter (\<lambda>strategy. validateStrategy strategy totalLaps)
                     (map (\<lambda>cp. createBalancedStrategy circuit totalLaps n cp tp fp) compounds)
              else [])"
    using assms(3-6) by simp
  then show ?thesis
    unfolding generateStrategies_def Let_def using n by auto
qed

lemma balanced_24_2: "balancedStints 2 ''M'' 0 24 [] =
   [\<lparr>stint = 1, compound = ''S'', laps = 12, boost = ''neutral''\<rparr>,
    \<lparr>stint = 2, compound = ''H'', laps = 12, boost = ''neutral''\<rparr>]"
  by (simp add: balancedStints.simps)

text \<open>
  Claim C2. Every strategy that \<open>generateStrategies\<close> returns, for any circuit, total
  lap count (in particular one of at least 1) and constraints, has stint lap counts that
  sum to \<open>totalLaps\<close> and are all positive, and its stint count \<open>n\<close> lies between 1 and
  \<open>maxStints\<close> with the even average \<open>floor(totalLaps / n)\<close> inside
  \<open>[minLength, maxLength]\<close>: a stint count whose average falls outside gives no
  strategy.
\<close>

theorem generated_strategies_valid:
  assumes "s \<in> set (generateStrategies circuit totalLaps tp fp maxS compounds minL maxL)"
  shows "sum_list (map laps (stints s)) = totalLaps
     \<and> list_all (\<lambda>st. 0 < laps st) (stints s)
     \<and> 1 \<le> int (length (stints s)) \<and> int (length (stints s)) \<le> maxS
     \<and> minL \<le> totalLaps div int (length (stints s))
     \<and> totalLaps div int (length (stints s)) \<le> maxL"
proof -
  obtain n cp where s: "s = createBalancedStrategy circuit totalLaps n cp tp fp"
    and n: "1 \<le> n" "n \<le> maxS"
    and avg: "minL \<le> totalLaps div n" "totalLaps div n \<le> maxL"
    and v: "validateStrategy s totalLaps"
    using generateStrategies_D[OF assms] by blast
  have "length (stints s) = nat n"
    unfolding s createBalancedStrategy_stints by (simp add: length_balancedStints)
  then have len: "int (length (stints s)) = n" using n(1) by simp
  show ?thesis using v n avg unfolding len by (simp add: validateStrategy_iff)
qed

theorem generated_strategies_valid_witness:
  "createBalancedStrategy ''FRA'' 24 2 ''M'' 49 49
      \<in> set (generateStrategies ''FRA'' 24 49 49 3 [''M'', ''S''] 5 16)
   \<and> stints (createBalancedStrategy ''FRA'' 24 2 ''M'' 49 49) =
        [\<lparr>stint = 1, compound = ''S'', laps = 12, boost = ''neutral''\<rparr>,
         \<lparr>stint = 2, compound = ''H'', laps = 12, boost = ''neutral''\<rparr>]
   \<and> sum_list (map laps (stints (createBalancedStrategy ''FRA'' 24 2 ''M'' 49 49))) = 24
   \<and> (5::int) \<le> 24 div int (length (stints (createBalancedStrategy ''FRA'' 24 2 ''M'' 49 49)))
   \<and> 24 div int (length (stints (createBalancedStrategy ''FRA'' 24 2 ''M'' 49 49))) \<le> (16::int)"
proof -
  have st: "stints (createBalancedStrategy ''FRA'' 24 2 ''M'' 49 49) =
        [\<lparr>stint = 1, compound = ''S'', laps = 12, boost = ''neutral''\<rparr>,
         \<lparr>stint = 2, compound = ''H'', laps = 12, boost = ''neutral''\<rparr>]"
    by (simp only: createBalancedStrategy_stints balanced_24_2)
  have v: "validateStrategy (createBalancedStrategy ''FRA'' 24 2 ''M'' 49 49) 24"
    by (simp add: validateStrategy_iff st)
  have m: "createBalancedStrategy ''FRA'' 24 2 ''M'' 49 49
      \<in> set (generateStrategies ''FRA'' 24 49 49 3 [''M'', ''S''] 5 16)"
    by (rule generateStrategies_I[OF _ _ _ _ _ v]) simp_all
  show ?thesis
    using generated_strategies_valid [OF m] m st by simp
qed

section \<open>Properties of the strategy comparator\<close>

lemma analyzeStint_eq:
  "analyzeStint circuit n (i, st) (t, f, r) =
     (t + laps st * 90 + (if int i < n - 1 then 25 else 0),
      f + (case calculateStintFuel circuit 100 (real_of_int (laps st)) (boost st) of
             Success d m \<Rightarrow> sf_stintFuel d | Failure e c \<Rightarrow> 0),
      r + stintRisk circuit st)"
  by (simp add: analyzeStint_def Let_def stintRisk_def)

lemma analyze_fold_time:
  assumes "int (k + length sts) = n"
  shows "fst (fold (analyzeStint circuit n) (enumerate k sts) (t, f, r)) =
     t + 90 * sum_list (map laps sts) + 25 * (if sts = [] then 0 else int (length sts) - 1)"
  using assms
proof (induction sts arbitrary: k t f r)
  case Nil
  then show ?case by simp
next
  case (Cons x xs)
  have k: "int (Suc k + length xs) = n" using Cons.prems by simp
  have i: "int k < n - 1 \<longleftrightarrow> xs \<noteq> []" using Cons.prems by auto
  show ?case
    unfolding enumerate_simps fold_Cons comp_apply analyzeStint_eq i Cons.IH[OF k]
    by (cases "xs = []") simp_all
qed

lemma analyze_fold_risk:
  "snd (snd (fold (analyzeStint circuit n) (enumerate k sts) (t, f, r))) =
     r + sum_list (map (stintRisk circuit) sts)"
proof (induction sts arbitrary: k t f r)
  case Nil
  then show ?case by simp
next
  case (Cons x xs)
  show ?case
    unfolding enumerate_simps fold_Cons comp_apply analyzeStint_eq Cons.IH
    by simp
qed

text \<open>
  Claim C9. For every strategy with \<open>n \<ge> 1\<close> stints and every circuit code (a known
  one in particular), \<open>analyzeStrategy\<close> returns \<open>estimatedTime\<close> equal to 90 times the
  total of the stint lap counts plus 25 times \<open>n - 1\<close>, \<open>pitStops = n - 1\<close>, and a
  \<open>riskLevel\<close> that is the sum over the stints of 2 when \<open>remaining < 30\<close> and otherwise
  1 when \<open>remaining < 50\<close>, where \<open>remaining\<close> comes from \<open>calculateTyreWear\<close> for the
  stint's compound and lap count at 100 tyre points.
\<close>

theorem analyzeStrategy_totals:
  assumes "stints s \<noteq> []"
  shows "estimatedTime (analyzeStrategy s circuit)
           = 90 * sum_list (map laps (stints s)) + 25 * (int (length (stints s)) - 1)
     \<and> pitStops (analyzeStrategy s circuit) = int (length (stints s)) - 1
     \<and> riskLevel (analyzeStrategy s circuit)
           = sum_list (map (\<lambda>st.
               if remaining_of (calculateTyreWear circuit (compound st) (real_of_int (laps st)) 100) < 30
               then 2
               else if remaining_of (calculateTyreWear circuit (compound st) (real_of_int (laps st)) 100) < 50
               then 1 else 0) (stints s))"
proof -
  let ?acc = "fold (analyzeStint circuit (int (length (stints s)))) (enumerate 0 (stints s)) (0, 0, 0)"
  have t: "fst ?acc = 90 * sum_list (map laps (stints s)) + 25 * (int (length (stints s)) - 1)"
    using assms by (simp add: analyze_fold_time)
  have r: "snd (snd ?acc) = sum_list (map (stintRisk circuit) (stints s))"
    by (simp add: analyze_fold_risk)
  have e: "stintRisk circuit = (\<lambda>st.
               if remaining_of (calculateTyreWear circuit (compound st) (real_of_int (laps st)) 100) < 30
               then 2
               else if remaining_of (calculateTyreWear circuit (compound st) (real_of_int (laps st)) 100) < 50
               then 1 else 0)"
    by (rule ext) (simp add: stintRisk_def)
  obtain a b c where acc: "?acc = (a, b, c)" by (cases ?acc)
  show ?thesis
    using t r unfolding e acc by (simp add: analyzeStrategy_def Let_def acc)
qed


theorem analyzeStrategy_totals_witness:
  "stints \<lparr>stints = [\<lparr>stint = 1, compound = ''S'', laps = 12, boost = ''neutral''\<rparr>,
                      \<lparr>stint = 2, compound = ''H'', laps = 12, boost = ''neutral''\<rparr>],
           totalFuel = 0, description = []\<rparr> \<noteq> []
   \<and> estimatedTime (analyzeStrategy
         \<lparr>stints = [\<lparr>stint = 1, compound = ''S'', laps = 12, boost = ''neutral''\<rparr>,
                    \<lparr>stint = 2, compound = ''H'', laps = 12, boost = ''neutral''\<rparr>],
          totalFuel = 0, description = []\<rparr> ''FRA'') = 2185
   \<and> pitStops (analyzeStrategy
         \<lparr>stints = [\<lparr>stint = 1, compound = ''S'', laps = 12, boost = ''neutral''\<rparr>,
                    \<lparr>stint = 2, compound = ''H'', laps = 12, boost = ''neutral''\<rparr>],
          totalFuel = 0, description = []\<rparr> ''FRA'') = 1"
  using analyzeStrategy_totals
    [of "\<lparr>stints = [\<lparr>stint = 1, compound = ''S'', laps = 12, boost = ''neutral''\<rparr>,
                     \<lparr>stint = 2, compound = ''H'', laps = 12, boost = ''neutral''\<rparr>],
          totalFuel = 0, description = []\<rparr>" "''FRA''"]
  by simp

section \<open>Properties of the strategy optimizer\<close>

lemma mset_ranked:
  "mset (rankedStrategies c circuit totalLaps tp fp cs)
     = mset (map (withScore c) (candidateStrategies circuit totalLaps tp fp cs))"
  by (simp add: rankedStrategies_def)

lemma sorted_ranked:
  "sorted (map (\<lambda>s. - score s) (rankedStrategies c circuit totalLaps tp fp cs))"
  by (simp add: rankedStrategies_def)

lemma generate_FRA:
  "generateStrategies ''FRA'' 24 49 49 3 [''M'', ''S''] 5 16 =
     [createBalancedStrategy ''FRA'' 24 2 ''M'' 49 49, createBalancedStrategy ''FRA'' 24 2 ''S'' 49 49,
      createBalancedStrategy ''FRA'' 24 3 ''M'' 49 49, createBalancedStrategy ''FRA'' 24 3 ''S'' 49 49]"
proof -
  have u: "[1..3::int] = [1, 2, 3]" by code_simp
  have v: "validateStrategy (createBalancedStrategy ''FRA'' 24 2 ''M'' 49 49) 24"
      "validateStrategy (createBalancedStrategy ''FRA'' 24 2 ''S'' 49 49) 24"
      "validateStrategy (createBalancedStrategy ''FRA'' 24 3 ''M'' 49 49) 24"
      "validateStrategy (createBalancedStrategy ''FRA'' 24 3 ''S'' 49 49) 24"
    by (simp_all add: validateStrategy_iff createBalancedStrategy_stints balancedStints.simps)
  show ?thesis
    unfolding generateStrategies_def Let_def u by (simp add: v)
qed

lemma candidates_FRA:
  "candidateStrategies ''FRA'' 24 49 49
     \<lparr>maxStints = None, preferredCompounds = None, minStintLength = None, maxStintLength = None\<rparr>
   = generateStrategies ''FRA'' 24 49 49 3 [''M'', ''S''] 5 16"
proof -
  have "\<lfloor>real_of_int 24 * 0.7\<rfloor> = (16::int)" by (simp add: floor_eq_iff)
  then show ?thesis by (simp add: candidateStrategies_def)
qed

text \<open>
  What \<open>optimizeStrategy\<close> returns, by the value the read \<open>this.circuitsData[circuit]\<close>
  gives. When it gives \<open>undefined\<close> the function fails with \<open>Circuito no encontrado\<close>.
  When it gives a value the function succeeds: with the candidates of the generator
  scored and ranked by descending score, \<open>recommended\<close> is the first of the ranking
  (absent exactly when there is no candidate) and \<open>alternatives\<close> are the next four at
  most; the recommended score is at least the score of every candidate and of every
  alternative.
\<close>

lemma optimizeStrategy_ranked:
  "(getProperty circuitsData circuit = None \<longrightarrow>
      optimizeStrategy circuit totalLaps tp fp cs
        = Failure CircuitoNoEncontrado ''Strategy optimization'')
   \<and> (getProperty circuitsData circuit = Some c \<longrightarrow>
      (\<exists>opt m ranked. optimizeStrategy circuit totalLaps tp fp cs = Success opt m
         \<and> mset ranked = mset (map (withScore c) (candidateStrategies circuit totalLaps tp fp cs))
         \<and> sorted (map (\<lambda>s. - score s) ranked)
         \<and> recommended opt = (case ranked of [] \<Rightarrow> None | s # rest \<Rightarrow> Some s)
         \<and> alternatives opt = take 4 (drop 1 ranked)
         \<and> length (alternatives opt) \<le> 4
         \<and> (candidateStrategies circuit totalLaps tp fp cs = [] \<longleftrightarrow> recommended opt = None)
         \<and> (\<forall>r. recommended opt = Some r \<longrightarrow>
               (\<forall>s \<in> set (candidateStrategies circuit totalLaps tp fp cs).
                   evaluateStrategy s c \<le> score r)
             \<and> (\<forall>a \<in> set (alternatives opt). score a \<le> score r))))"
proof (intro conjI impI)
  assume "getProperty circuitsData circuit = None"
  then show "optimizeStrategy circuit totalLaps tp fp cs
        = Failure CircuitoNoEncontrado ''Strategy optimization''"
    by (rule optimizeStrategy_unknown)
next
  assume c: "getProperty circuitsData circuit = Some c"
  define ranked where "ranked = rankedStrategies c circuit totalLaps tp fp cs"
  define cands where "cands = candidateStrategies circuit totalLaps tp fp cs"
  define opt where "opt =
       \<lparr>recommended = (case take 5 ranked of [] \<Rightarrow> None | s # rest \<Rightarrow> Some s),
        alternatives = drop 1 (take 5 ranked),
        opt_circuitInfo =
          \<lparr>oci_name = nameOf c, oci_totalLaps = totalLaps, oci_difficulty = difficultyOf c\<rparr>\<rparr>"
  have res: "optimizeStrategy circuit totalLaps tp fp cs
               = Success opt (''Operaci'' @ [CHR 0xC3, CHR 0xB3] @ ''n exitosa'')"
    unfolding opt_def ranked_def optimizeStrategy_ok[OF c] handleSuccess_def ..
  have ms: "mset ranked = mset (map (withScore c) cands)"
    unfolding ranked_def cands_def by (rule mset_ranked)
  have so: "sorted (map (\<lambda>s. - score s) ranked)"
    unfolding ranked_def by (rule sorted_ranked)
  have rec: "recommended opt = (case ranked of [] \<Rightarrow> None | s # rest \<Rightarrow> Some s)"
    unfolding opt_def by (cases ranked) simp_all
  have alt: "alternatives opt = take 4 (drop 1 ranked)"
    unfolding opt_def by (simp add: drop_take)
  have len: "length (alternatives opt) \<le> 4" unfolding alt by simp
  have "cands = [] \<longleftrightarrow> ranked = []"
  proof -
    have "length ranked = length cands" using ms by (metis size_mset length_map)
    then show ?thesis by auto
  qed
  then have emp: "cands = [] \<longleftrightarrow> recommended opt = None"
    unfolding rec by (cases ranked) simp_all
  have best: "\<forall>r. recommended opt = Some r \<longrightarrow>
               (\<forall>s \<in> set cands. evaluateStrategy s c \<le> score r)
             \<and> (\<forall>a \<in> set (alternatives opt). score a \<le> score r)"
  proof (intro allI impI)
    fix r assume "recommended opt = Some r"
    then obtain rest where rk: "ranked = r # rest"
      unfolding rec by (cases ranked) simp_all
    have top: "\<forall>a \<in> set ranked. score a \<le> score r"
      using so unfolding rk by auto
    have "\<forall>s \<in> set cands. evaluateStrategy s c \<le> score r"
    proof
      fix s assume "s \<in> set cands"
      then have "withScore c s \<in> set (map (withScore c) cands)" by simp
      then have "withScore c s \<in> set ranked" using ms by (metis set_mset_mset)
      then have "score (withScore c s) \<le> score r" using top by blast
      then show "evaluateStrategy s c \<le> score r" by (simp add: withScore_def)
    qed
    moreover have "\<forall>a \<in> set (alternatives opt). score a \<le> score r"
    proof
      fix a assume "a \<in> set (alternatives opt)"
      then have "a \<in> set ranked" unfolding alt by (meson in_set_dropD in_set_takeD)
      then show "score a \<le> score r" using top by blast
    qed
    ultimately show "(\<forall>s \<in> set cands. evaluateStrategy s c \<le> score r)
             \<and> (\<forall>a \<in> set (alternatives opt). score a \<le> score r)" by blast
  qed
  show "\<exists>opt m ranked. optimizeStrategy circuit totalLaps tp fp cs = Success opt m
         \<and> mset ranked = mset (map (withScore c) (candidateStrategies circuit totalLaps tp fp cs))
         \<and> sorted (map (\<lambda>s. - score s) ranked)
         \<and> recommended opt = (case ranked of [] \<Rightarrow> None | s # rest \<Rightarrow> Some s)
         \<and> alternatives opt = take 4 (drop 1 ranked)
         \<and> length (alternatives opt) \<le> 4
         \<and> (candidateStrategies circuit totalLaps tp fp cs = [] \<longleftrightarrow> recommended opt = None)
         \<and> (\<forall>r. recommended opt = Some r \<longrightarrow>
               (\<forall>s \<in> set (candidateStrategies circuit totalLaps tp fp cs).
                   evaluateStrategy s c \<le> score r)
             \<and> (\<forall>a \<in> set (alternatives opt). score a \<le> score r))"
  proof (intro exI conjI)
    show "optimizeStrategy circuit totalLaps tp fp cs
               = Success opt (''Operaci'' @ [CHR 0xC3, CHR 0xB3] @ ''n exitosa'')"
      by (rule res)
    show "mset ranked = mset (map (withScore c) (candidateStrategies circuit totalLaps tp fp cs))"
      using ms unfolding cands_def .
    show "sorted (map (\<lambda>s. - score s) ranked)" by (rule so)
    show "recommended opt = (case ranked of [] \<Rightarrow> None | s # rest \<Rightarrow> Some s)" by (rule rec)
    show "alternatives opt = take 4 (drop 1 ranked)" by (rule alt)
    show "length (alternatives opt) \<le> 4" by (rule len)
    show "candidateStrategies circuit totalLaps tp fp cs = [] \<longleftrightarrow> recommended opt = None"
      using emp unfolding cands_def .
    show "\<forall>r. recommended opt = Some r \<longrightarrow>
               (\<forall>s \<in> set (candidateStrategies circuit totalLaps tp fp cs).
                   evaluateStrategy s c \<le> score r)
             \<and> (\<forall>a \<in> set (alternatives opt). score a \<le> score r)"
      using best unfolding cands_def .
  qed
qed

text \<open>
  On the catalog: an unknown code fails, and France with the default constraints gives a
  recommendation and three alternatives, none scored above it.
\<close>

lemma optimizeStrategy_ranked_example:
  "getProperty circuitsData ''XYZ'' = None
   \<and> optimizeStrategy ''XYZ'' 24 49 49
        \<lparr>maxStints = None, preferredCompounds = None, minStintLength = None, maxStintLength = None\<rparr>
       = Failure CircuitoNoEncontrado ''Strategy optimization''
   \<and> circuitsData ''FRA'' = Some (mkCircuit ''France'' 5.881 24 80 ''FR'' ''Europe/Paris'' ''Hard'')
   \<and> (\<exists>opt m r. optimizeStrategy ''FRA'' 24 49 49
          \<lparr>maxStints = None, preferredCompounds = None, minStintLength = None, maxStintLength = None\<rparr>
            = Success opt m
        \<and> recommended opt = Some r \<and> length (alternatives opt) = 3
        \<and> list_all (\<lambda>a. score a \<le> score r) (alternatives opt))"
proof -
  let ?cs = "\<lparr>maxStints = None, preferredCompounds = None, minStintLength = None, maxStintLength = None\<rparr>"
  let ?c = "Own (mkCircuit ''France'' 5.881 24 80 ''FR'' ''Europe/Paris'' ''Hard'')"
  have x: "getProperty circuitsData ''XYZ'' = None"
    by (simp add: getProperty_None_iff circuitsData_def circuitsTable_def
        objectPrototypeNames_def objectPrototype_def)
  have f: "optimizeStrategy ''XYZ'' 24 49 49 ?cs = Failure CircuitoNoEncontrado ''Strategy optimization''"
    using optimizeStrategy_ranked [of "''XYZ''" 24 49 49 ?cs ?c] x by blast
  have n: "length (candidateStrategies ''FRA'' 24 49 49 ?cs) = 4"
    unfolding candidates_FRA generate_FRA by simp
  obtain opt m ranked where o: "optimizeStrategy ''FRA'' 24 49 49 ?cs = Success opt m"
    and ms: "mset ranked = mset (map (withScore ?c) (candidateStrategies ''FRA'' 24 49 49 ?cs))"
    and rec: "recommended opt = (case ranked of [] \<Rightarrow> None | s # rest \<Rightarrow> Some s)"
    and alt: "alternatives opt = take 4 (drop 1 ranked)"
    and best: "\<forall>r. recommended opt = Some r \<longrightarrow>
               (\<forall>s \<in> set (candidateStrategies ''FRA'' 24 49 49 ?cs). evaluateStrategy s ?c \<le> score r)
             \<and> (\<forall>a \<in> set (alternatives opt). score a \<le> score r)"
    using optimizeStrategy_ranked [of "''FRA''" 24 49 49 ?cs ?c] circuit_own[OF circuitsData_FRA]
    by blast
  have l: "length ranked = 4" using ms n by (metis size_mset length_map)
  then obtain r rest where rk: "ranked = r # rest" by (cases ranked) simp_all
  have "recommended opt = Some r" unfolding rec rk by simp
  moreover have "length (alternatives opt) = 3" unfolding alt using l by simp
  moreover have "list_all (\<lambda>a. score a \<le> score r) (alternatives opt)"
    using best \<open>recommended opt = Some r\<close> by (simp add: list_all_iff)
  ultimately show ?thesis using x f o circuitsData_FRA by blast
qed

text \<open>
  Claim C3 against the code. The claim has \<open>optimizeStrategy\<close> fail with
  \<open>Circuito no encontrado\<close> when the circuit code is not in the catalog. The name
  \<open>constructor\<close> is no key of the catalog, but the read \<open>this.circuitsData[circuit]\<close>
  finds the function \<open>Object\<close> on the prototype chain, \<open>!circuitInfo\<close> is false, and the
  function returns a success whose \<open>circuitInfo\<close> has the name \<open>Object\<close> and no
  difficulty.
\<close>

theorem optimizeStrategy_accepts_inherited_name:
  "circuitsData ''constructor'' = None
   \<and> optimizeStrategy ''constructor'' 24 100 100
        \<lparr>maxStints = None, preferredCompounds = None, minStintLength = None, maxStintLength = None\<rparr>
       \<noteq> Failure CircuitoNoEncontrado ''Strategy optimization''
   \<and> success (optimizeStrategy ''constructor'' 24 100 100
        \<lparr>maxStints = None, preferredCompounds = None, minStintLength = None, maxStintLength = None\<rparr>)
   \<and> map_option opt_circuitInfo (data_of (optimizeStrategy ''constructor'' 24 100 100
        \<lparr>maxStints = None, preferredCompounds = None, minStintLength = None, maxStintLength = None\<rparr>))
       = Some \<lparr>oci_name = Some ''Object'', oci_totalLaps = 24, oci_difficulty = None\<rparr>"
proof -
  have k: "circuitsData ''constructor'' = None"
    by (simp add: circuitsData_def circuitsTable_def)
  have g: "getProperty circuitsData ''constructor''
             = Some (Inherited \<lparr>member_name = Some ''Object'', member_length = Some 1\<rparr>)"
    by (simp add: getProperty_def k objectPrototype_def)
  show ?thesis
    by (simp add: k optimizeStrategy_ok[OF g] handleSuccess_def)
qed

section \<open>The strategy evaluator against the specification\<close>

lemma circuitNames_eq:
  "map (\<lambda>kc. name (snd kc)) circuitsTable =
    [''Abu Dhabi'', ''Australia'', ''Austria'', ''Azerbaijan'', ''Bahrain'', ''Belgium'', ''Brazil'',
     ''Canada'', ''China'', ''Europe'', ''France'', ''Great Britain'', ''Germany'', ''Hungary'',
     ''Italy'', ''Japan'', ''Malaysia'', ''Mexico'', ''Monaco'', ''Russia'', ''Singapore'', ''Spain'',
     ''Turkey'', ''USA'']"
  by (simp add: circuitsTable_def mkCircuit_def)

lemma circuitCodes_eq:
  "map fst circuitsTable =
    [''ABU'', ''AUS'', ''AUT'', ''AZE'', ''BAH'', ''BEL'', ''BRA'', ''CAN'', ''CHN'', ''EUR'', ''FRA'',
     ''GBR'', ''GER'', ''HUN'', ''ITA'', ''JAP'', ''MAL'', ''MEX'', ''MON'', ''RUS'', ''SIN'', ''SPA'',
     ''TUR'', ''USA'']"
  by (simp add: circuitsTable_def)

lemma other_names_are_no_codes:
  "list_all (\<lambda>n. n \<notin> set
    [''ABU'', ''AUS'', ''AUT'', ''AZE'', ''BAH'', ''BEL'', ''BRA'', ''CAN'', ''CHN'', ''EUR'', ''FRA'',
     ''GBR'', ''GER'', ''HUN'', ''ITA'', ''JAP'', ''MAL'', ''MEX'', ''MON'', ''RUS'', ''SIN'', ''SPA'',
     ''TUR'', ''USA''])
    [''Abu Dhabi'', ''Australia'', ''Austria'', ''Azerbaijan'', ''Bahrain'', ''Belgium'', ''Brazil'',
     ''Canada'', ''China'', ''Europe'', ''France'', ''Great Britain'', ''Germany'', ''Hungary'',
     ''Italy'', ''Japan'', ''Malaysia'', ''Mexico'', ''Monaco'', ''Russia'', ''Singapore'', ''Spain'',
     ''Turkey'']"
  by code_simp

lemma other_names_are_not_inherited:
  "list_all (\<lambda>n. n \<notin> set
    [''constructor'', ''__defineGetter__'', ''__defineSetter__'', ''hasOwnProperty'',
     ''__lookupGetter__'', ''__lookupSetter__'', ''isPrototypeOf'', ''propertyIsEnumerable'',
     ''toString'', ''valueOf'', ''__proto__'', ''toLocaleString''])
    [''Abu Dhabi'', ''Australia'', ''Austria'', ''Azerbaijan'', ''Bahrain'', ''Belgium'', ''Brazil'',
     ''Canada'', ''China'', ''Europe'', ''France'', ''Great Britain'', ''Germany'', ''Hungary'',
     ''Italy'', ''Japan'', ''Malaysia'', ''Mexico'', ''Monaco'', ''Russia'', ''Singapore'', ''Spain'',
     ''Turkey'']"
  by code_simp

lemma other_names_are_no_keys:
  "list_all (\<lambda>n. getProperty circuitsData n = None)
    [''Abu Dhabi'', ''Australia'', ''Austria'', ''Azerbaijan'', ''Bahrain'', ''Belgium'', ''Brazil'',
     ''Canada'', ''China'', ''Europe'', ''France'', ''Great Britain'', ''Germany'', ''Hungary'',
     ''Italy'', ''Japan'', ''Malaysia'', ''Mexico'', ''Monaco'', ''Russia'', ''Singapore'', ''Spain'',
     ''Turkey'']"
proof -
  have "getProperty circuitsData n = None
          \<longleftrightarrow> n \<notin> set (map fst circuitsTable) \<and> n \<notin> set objectPrototypeNames" for n
    unfolding getProperty_None_iff circuitsData_def map_of_eq_None_iff by simp
  then show ?thesis
    using other_names_are_no_codes other_names_are_not_inherited
    unfolding circuitCodes_eq objectPrototypeNames_eq list_all_iff by (simp only:) blast
qed

lemma catalog_name_not_key:
  assumes "circuitsData code = Some ci" "name ci \<noteq> ''USA''"
  shows "getProperty circuitsData (name ci) = None"
proof -
  have "(code, ci) \<in> set circuitsTable" by (rule circuit_in_table[OF assms(1)])
  then have "name (snd (code, ci)) \<in> set (map (\<lambda>kc. name (snd kc)) circuitsTable)"
    unfolding set_map by (rule imageI)
  then have "name ci \<in> set (map (\<lambda>kc. name (snd kc)) circuitsTable)" by simp
  then have "name ci \<in> set
    [''Abu Dhabi'', ''Australia'', ''Austria'', ''Azerbaijan'', ''Bahrain'', ''Belgium'', ''Brazil'',
     ''Canada'', ''China'', ''Europe'', ''France'', ''Great Britain'', ''Germany'', ''Hungary'',
     ''Italy'', ''Japan'', ''Malaysia'', ''Mexico'', ''Monaco'', ''Russia'', ''Singapore'', ''Spain'',
     ''Turkey'']"
    unfolding circuitNames_eq using assms(2) by simp
  then show ?thesis
    using other_names_are_no_keys unfolding list_all_iff by blast
qed

lemma evaluateStint_shift:
  "evaluateStint ci st sc = sc + evaluateStint ci st 0"
  by (simp add: evaluateStint_def Let_def)

lemma fold_evaluateStint:
  "fold (evaluateStint ci) sts sc = sc + sum_list (map (\<lambda>st. evaluateStint ci st 0) sts)"
proof (induction sts arbitrary: sc)
  case Nil
  then show ?case by simp
next
  case (Cons x xs)
  show ?case
    unfolding fold_Cons comp_apply Cons.IH list.map sum_list.Cons
    using evaluateStint_shift[of ci x sc] by simp
qed

lemma evaluateStint_spec:
  assumes "calculateTyreWear (propertyKey (nameOf ci)) (compound st) (real_of_int (laps st)) 100
         = calculateTyreWear code (compound st) (real_of_int (laps st)) 100"
  shows "evaluateStint ci st 0 = spec_stintAdjustment code st"
  using assms by (simp add: evaluateStint_def spec_stintAdjustment_def Let_def)

lemma evaluateStrategy_when_name_is_code:
  assumes "nameOf ci = Some code"
  shows "evaluateStrategy s ci = spec_score code s"
proof -
  have "map (\<lambda>st. evaluateStint ci st 0) (stints s) = map (spec_stintAdjustment code) (stints s)"
    using assms by (intro map_cong refl evaluateStint_spec) (simp add: propertyKey_def)
  then have "sum_list (map (\<lambda>st. evaluateStint ci st 0) (stints s))
           = sum_list (map (spec_stintAdjustment code) (stints s))"
    by (simp only:)
  then show ?thesis
    by (simp add: evaluateStrategy_def spec_score_def fold_evaluateStint)
qed

lemma evaluateStrategy_when_name_is_no_key:
  assumes "getProperty circuitsData (propertyKey (nameOf ci)) = None"
  shows "evaluateStrategy s ci =
     max 0 (100 - 15 * (int (length (stints s)) - 1)
              + sum_list (map (\<lambda>st. - 5 + (if 8 \<le> laps st \<and> laps st \<le> 25 then 5 else 0)) (stints s)))"
proof -
  have "(\<lambda>st. evaluateStint ci st 0)
          = (\<lambda>st. - 5 + (if 8 \<le> laps st \<and> laps st \<le> 25 then 5 else 0))"
    using assms by (intro ext) (simp add: evaluateStint_failed)
  then show ?thesis
    by (simp add: evaluateStrategy_def fold_evaluateStint)
qed

lemma circuitsData_TUR:
  "circuitsData ''TUR'' = Some (mkCircuit ''Turkey'' 5.162 27 90 ''TR'' ''Europe/Istanbul'' ''Very Hard'')"
  by (simp add: circuitsData_def circuitsTable_def)

lemma rawRemaining_TUR:
  "rawRemaining (mkCircuit ''Turkey'' 5.162 27 90 ''TR'' ''Europe/Istanbul'' ''Very Hard'') ''M'' 27 100
     \<le> 19.99"
proof -
  let ?c = "mkCircuit ''Turkey'' 5.162 27 90 ''TR'' ''Europe/Istanbul'' ''Very Hard''"
  define w where "w = baseWearM ?c 100"
  let ?y = "1.18 * (w * compoundMultiplierOf ''M'' / 100) * max 1 27"
  have "1.43 * (2 / 3) * (0.00364 * tyreWear ?c + 0.354) * (length_km ?c * 1.384612) * 150 / 10000 * 100
           \<le> baseWearM ?c 100"
    by (rule baseWearM_lower) (simp_all add: mkCircuit_def)
  moreover have "6.9 \<le> 1.43 * (2 / 3) * (0.00364 * tyreWear ?c + 0.354) * (length_km ?c * 1.384612) * 150 / 10000 * 100"
    by (simp add: mkCircuit_def)
  ultimately have "6.9 \<le> w" unfolding w_def by linarith
  then have y: "2.19 \<le> ?y" by (simp add: compoundMultiplierOf_codes)
  have "(5.58::real) \<le> 1 + 2.19 + 2.19\<^sup>2 / 2" by (simp add: power2_eq_square)
  also have "\<dots> \<le> exp 2.19" by (rule exp_lower_Taylor_quadratic) simp
  also have "\<dots> \<le> exp ?y" using y by simp
  finally have "5.58 \<le> exp ?y" .
  then have "inverse (exp ?y) \<le> inverse 5.58" by (intro le_imp_inverse_le) simp_all
  then have "exp (- ?y) \<le> 1 / 5.58" by (simp add: exp_minus)
  then have "100 * exp (- ?y) \<le> 19.99" by simp
  then show ?thesis unfolding rawRemaining_def w_def by simp
qed

lemma remaining_TUR:
  "remaining_of (calculateTyreWear ''TUR'' ''M'' 27 100) < 20"
proof -
  let ?c = "mkCircuit ''Turkey'' 5.162 27 90 ''TR'' ''Europe/Istanbul'' ''Very Hard''"
  have "remaining_of (calculateTyreWear ''TUR'' ''M'' 27 100) = toFixed 2 (rawRemaining ?c ''M'' 27 100)"
    by (rule remaining_of_ok[OF circuitsData_TUR]) simp_all
  also have "\<dots> \<le> toFixed 2 19.99" by (rule toFixed_mono[OF rawRemaining_TUR])
  also have "\<dots> = 19.99" by (simp add: toFixed_def)
  finally show ?thesis by simp
qed

text \<open>
  What \<open>evaluateStrategy\<close> computes on the circuits of the catalog. Only the entry
  \<open>USA\<close> has a display name that is a catalog key (its own); there the score is the
  one the specification words. On every other circuit the tyre calculation fails and
  each stint costs 5 points, whatever its compound and length.
\<close>

lemma evaluateStrategy_on_catalog:
  assumes "circuitsData code = Some ci" "name ci \<noteq> ''USA''"
  shows "evaluateStrategy s (Own ci) =
     max 0 (100 - 15 * (int (length (stints s)) - 1)
              + sum_list (map (\<lambda>st. - 5 + (if 8 \<le> laps st \<and> laps st \<le> 25 then 5 else 0)) (stints s)))"
  using catalog_name_not_key[OF assms]
  by (intro evaluateStrategy_when_name_is_no_key) (simp add: propertyKey_def)

lemma evaluateStrategy_on_USA:
  "evaluateStrategy s (Own (mkCircuit ''USA'' 4.602 30 65 ''US'' ''America/New_York'' ''Medium''))
     = spec_score ''USA'' s"
  by (rule evaluateStrategy_when_name_is_code) (simp add: mkCircuit_def)

text \<open>
  Claim C1 says that \<open>evaluateStrategy\<close> returns \<open>spec_score\<close> for every strategy with at
  least one stint on every catalog circuit. The code does not: for the one-stint strategy
  of 27 laps on Medium at Turkey (catalog code \<open>TUR\<close>) the Tyre Wear Model leaves less
  than 20 percent, so the score of the claim is \<open>100 - 30 = 70\<close>, while
  \<open>evaluateStrategy\<close> on the circuit object of \<open>TUR\<close> looks up the name \<open>Turkey\<close>,
  finds no circuit, reads \<open>remaining = 100\<close> and returns \<open>100 - 5 = 95\<close>.
\<close>

theorem evaluateStrategy_scores_by_display_name:
  "evaluateStrategy
     \<lparr>stints = [\<lparr>stint = 1, compound = ''M'', laps = 27, boost = ''neutral''\<rparr>],
      totalFuel = 0, description = ''Estrategia sin paradas''\<rparr>
     (Own (mkCircuit ''Turkey'' 5.162 27 90 ''TR'' ''Europe/Istanbul'' ''Very Hard'')) = 95
   \<and> spec_score ''TUR''
     \<lparr>stints = [\<lparr>stint = 1, compound = ''M'', laps = 27, boost = ''neutral''\<rparr>],
      totalFuel = 0, description = ''Estrategia sin paradas''\<rparr> = 70
   \<and> circuitsData ''TUR'' = Some (mkCircuit ''Turkey'' 5.162 27 90 ''TR'' ''Europe/Istanbul'' ''Very Hard'')"
proof -
  let ?C = "mkCircuit ''Turkey'' 5.162 27 90 ''TR'' ''Europe/Istanbul'' ''Very Hard''"
  let ?S = "\<lparr>stints = [\<lparr>stint = 1, compound = ''M'', laps = 27, boost = ''neutral''\<rparr>],
      totalFuel = 0, description = ''Estrategia sin paradas''\<rparr>"
  have n: "getProperty circuitsData (propertyKey (nameOf (Own ?C))) = None"
    by (simp add: getProperty_None_iff propertyKey_def mkCircuit_def circuitsData_def
        circuitsTable_def objectPrototypeNames_def objectPrototype_def)
  have e: "evaluateStrategy ?S (Own ?C) = 95"
    by (subst evaluateStrategy_when_name_is_no_key[OF n]) simp
  have s: "spec_score ''TUR'' ?S = 70"
    using remaining_TUR by (simp add: spec_score_def spec_stintAdjustment_def)
  show ?thesis using e s circuitsData_TUR by blast
qed

end
